theory Spec2Isabelle
  imports Main
begin

section \<open>Statuses, op-ids and process aborts\<close>

text \<open>
  A \<open>Status\<close> is either OK or an error code with a message. Only the codes that the
  modelled functions create or test are listed, together with the two codes
  (\<open>Aborted\<close>, \<open>ServiceUnavailable\<close>) that collaborators hand in.
\<close>

datatype StatusCode =
  NotFound | IllegalState | InvalidArgument | Aborted | ServiceUnavailable | TimedOut | Corruption

datatype Status = OK | Error StatusCode string

fun ok :: "Status \<Rightarrow> bool" where
  "ok OK = True"
| "ok (Error c m) = False"

fun IsNotFound :: "Status \<Rightarrow> bool" where
  "IsNotFound (Error NotFound m) = True"
| "IsNotFound s = False"

fun IsAborted :: "Status \<Rightarrow> bool" where
  "IsAborted (Error Aborted m) = True"
| "IsAborted s = False"

text \<open>
  \<open>yb::OpId\<close> is a pair of 64-bit signed integers. The functions below only copy and
  compare op-ids, so the fields are modelled as \<open>int\<close>: no arithmetic is done on them.
\<close>

record OpId =
  opid_term :: int
  opid_index :: int

definition kUnknownTerm :: int where
  "kUnknownTerm = -1"

text \<open>
  Modelled from the spec: the declaration of \<open>yb::OpId\<close> (yb/util/opid.h) and the
  initial value of \<open>op_id_copy_\<close> (operation_driver.h) are not under src/. Before
  assignment the published copy reads as invalid; an op-id is valid when neither field
  is negative.
\<close>

definition OpId_valid :: "OpId \<Rightarrow> bool" where
  "OpId_valid x = (0 \<le> opid_term x \<and> 0 \<le> opid_index x)"

definition OpId_Invalid :: OpId where
  "OpId_Invalid = \<lparr>opid_term = kUnknownTerm, opid_index = -1\<rparr>"

text \<open>
  The ways in which the process dies inside the modelled code. \<open>LOG(DFATAL)\<close> and
  \<open>DCHECK\<close> only abort in a debug build, that is when \<open>NDEBUG\<close> is not defined; the
  functions that contain them take the flag \<open>ndebug\<close>.
\<close>

datatype abort =
  CHECK_failed string | LOG_FATAL string | LOG_DFATAL string | DCHECK_failed string
  | null_dereference string

section \<open>OperationDriver\<close>

datatype ReplicationState = NOT_REPLICATING | REPLICATING | REPLICATION_FAILED | REPLICATED

datatype PrepareState = NOT_PREPARED | PREPARED

datatype OperationType = kWrite | kAlterSchema | kUpdateTransaction | kSnapshot | kTruncate | kEmpty

text \<open>
  The \<open>Operation\<close> classes are outside src/. An operation is represented by what the
  driver reads from it: its type, the op-id held by its state, and the statuses its
  \<open>Prepare()\<close> and \<open>Replicated(leader_term)\<close> methods return.
\<close>

record Operation =
  operation_type :: OperationType
  state_op_id :: OpId
  Prepare_result :: Status
  Replicated_result :: "int \<Rightarrow> Status"

text \<open>
  Calls that the driver makes on its collaborators. \<open>OpIds* applied_op_ids\<close> is a pointer
  that may be null; it is only forwarded, so it is a \<open>nat option\<close>.
\<close>

type_synonym OpIdsPtr = "nat option"

datatype call =
  Tracker_Add
  | Tracker_Release OpIdsPtr
  | Operation_NewReplicateMsg
  | Operation_Prepare
  | Operation_Replicated int
  | Operation_Aborted Status
  | Operation_SubmittedToPreparer
  | State_AddedToFollower
  | State_AddedToLeader OpId OpId
  | Consensus_NewRound
  | Round_BindToTerm int
  | Round_SetAppendCallback
  | Preparer_Submit
  | Mvcc_SetPropagatedSafeTimeOnFollower int

text \<open>
  The driver's fields. \<open>consensus_\<close> is only tested for null. \<open>calls\<close> is the trace of the
  collaborator calls made so far, each with the two state axes as they were when the call
  was made. \<open>waiting\<close> holds the arguments of a \<open>ReplicationFinished\<close> call that is inside
  its polling loop (lines 328-340), waiting for \<open>prepare_state_\<close> to become \<open>PREPARED\<close>.
\<close>

record OperationDriver =
  operation :: "Operation option"
  op_id_copy :: OpId
  replication_state :: ReplicationState
  prepare_state :: PrepareState
  consensus_present :: bool
  propagated_safe_time :: "int option"
  calls :: "(call \<times> ReplicationState \<times> PrepareState) list"
  waiting :: "(Status \<times> int \<times> OpIdsPtr) option"

type_synonym 'a result = "(abort \<times> OperationDriver) + 'a"

definition record_call :: "call \<Rightarrow> OperationDriver \<Rightarrow> OperationDriver" where
  "record_call c d = d\<lparr>calls := calls d @ [(c, replication_state d, prepare_state d)]\<rparr>"

definition new_OperationDriver :: "bool \<Rightarrow> OperationDriver" where
  "new_OperationDriver consensus =
     \<lparr>operation = None, op_id_copy = OpId_Invalid,
      replication_state = NOT_REPLICATING, prepare_state = NOT_PREPARED,
      consensus_present = consensus, propagated_safe_time = None,
      calls = [], waiting = None\<rparr>"

text \<open>
  \<open>Init(std::unique_ptr<Operation>* operation, int64_t term)\<close>. The argument
  \<open>operation\<close> is \<open>None\<close> for a null pointer and \<open>Some u\<close> for a pointer to the
  caller's \<open>unique_ptr\<close> holding \<open>u\<close>. \<open>add_result\<close> is what
  \<open>operation_tracker_->Add(this)\<close> answers. The result is the returned status, the
  caller's \<open>unique_ptr\<close> afterwards, and the driver.
\<close>

definition Init_replicating ::
  "int \<Rightarrow> OperationDriver \<Rightarrow> OperationDriver result" where
  "Init_replicating trm d =
     (if trm = kUnknownTerm then
        Inr ((case operation d of
                None \<Rightarrow> d
              | Some opn \<Rightarrow> d\<lparr>op_id_copy := state_op_id opn\<rparr>)
             \<lparr>replication_state := REPLICATING\<rparr>)
      else if consensus_present d then
        (case operation d of
           None \<Rightarrow> Inl (null_dereference ''operation_->NewReplicateMsg()'', d)
         | Some opn \<Rightarrow>
             Inr (record_call Round_SetAppendCallback
                   (record_call (Round_BindToTerm trm)
                     (record_call Consensus_NewRound
                       (record_call Operation_NewReplicateMsg d)))))
      else Inr d)"

definition Init ::
  "Status \<Rightarrow> Operation option option \<Rightarrow> int \<Rightarrow> OperationDriver
     \<Rightarrow> (Status \<times> Operation option option \<times> OperationDriver) result" where
  "Init add_result operation_arg trm d =
     (let d1 = (case operation_arg of None \<Rightarrow> d | Some u \<Rightarrow> d\<lparr>operation := u\<rparr>);
          moved = (case operation_arg of None \<Rightarrow> None | Some u \<Rightarrow> Some None)
      in case Init_replicating trm d1 of
           Inl e \<Rightarrow> Inl e
         | Inr d2 \<Rightarrow>
             (let d3 = record_call Tracker_Add d2;
                  give_back = (\<not> ok add_result \<and> operation_arg \<noteq> None);
                  returned = (if give_back then Some (operation d3) else moved);
                  d4 = (if give_back then d3\<lparr>operation := None\<rparr> else d3);
                  d5 = (if trm = kUnknownTerm \<and> operation d4 \<noteq> None
                        then record_call State_AddedToFollower d4 else d4)
              in Inr (add_result, returned, d5)))"

definition GetOpId :: "OperationDriver \<Rightarrow> OpId" where
  "GetOpId d = op_id_copy d"

definition driver_operation_type :: "OperationDriver \<Rightarrow> OperationType" where
  "driver_operation_type d =
     (case operation d of Some opn \<Rightarrow> operation_type opn | None \<Rightarrow> kEmpty)"

text \<open>
  \<open>HandleFailure\<close> (lines 265-296). The \<open>VLOG\<close> and \<open>TRACE\<close> lines have no effect on the
  driver and are left out.
\<close>

definition HandleFailure :: "Status \<Rightarrow> OperationDriver \<Rightarrow> OperationDriver result" where
  "HandleFailure status d =
     (let repl_state_copy = replication_state d in
      if ok status then Inl (CHECK_failed ''!status.ok()'', d)
      else if repl_state_copy = NOT_REPLICATING \<or> repl_state_copy = REPLICATION_FAILED then
        (case operation d of
           None \<Rightarrow> Inl (null_dereference ''operation_->Aborted(status)'', d)
         | Some opn \<Rightarrow>
             Inr (record_call (Tracker_Release None) (record_call (Operation_Aborted status) d)))
      else Inl (LOG_FATAL ''Cannot cancel operations that have already replicated'', d))"

definition Abort :: "Status \<Rightarrow> OperationDriver \<Rightarrow> OperationDriver result" where
  "Abort status d =
     (if ok status then Inl (CHECK_failed ''!status.ok()'', d)
      else let repl_state_copy = replication_state d in
        if repl_state_copy = NOT_REPLICATING then HandleFailure status d else Inr d)"

text \<open>
  \<open>StartOperation\<close> (lines 205-214): returns the bool and the driver.
\<close>

definition StartOperation :: "OperationDriver \<Rightarrow> bool \<times> OperationDriver" where
  "StartOperation d =
     (let d1 = (case propagated_safe_time d of
                  Some ht \<Rightarrow> record_call (Mvcc_SetPropagatedSafeTimeOnFollower ht) d
                | None \<Rightarrow> d)
      in if operation d1 = None then (False, record_call (Tracker_Release None) d1)
         else (True, d1))"

text \<open>
  \<open>PrepareAndStart\<close> (lines 216-260). The time stamp \<open>prepare_physical_hybrid_time_\<close>
  is not read by any modelled function and is left out.
\<close>

definition PrepareAndStart :: "OperationDriver \<Rightarrow> (Status \<times> OperationDriver) result" where
  "PrepareAndStart d =
     (let prepare_status = (case operation d of None \<Rightarrow> OK | Some opn \<Rightarrow> Prepare_result opn);
          d1 = (case operation d of None \<Rightarrow> d | Some opn \<Rightarrow> record_call Operation_Prepare d)
      in if \<not> ok prepare_status then Inr (prepare_status, d1)
         else if prepare_state d1 \<noteq> NOT_PREPARED
           then Inl (CHECK_failed ''prepare_state_ == NOT_PREPARED'', d1)
         else
           (let repl_state_copy = replication_state d1;
                started = (if repl_state_copy \<noteq> NOT_REPLICATING then StartOperation d1
                           else (True, d1));
                d2 = snd started
            in if \<not> fst started then Inr (OK, d2)
               else if prepare_state d2 \<noteq> NOT_PREPARED
                 then Inl (CHECK_failed ''prepare_state_ == NOT_PREPARED'', d2)
               else
                 (let d3 = d2\<lparr>prepare_state := PREPARED\<rparr>
                  in Inr (OK, if replication_state d3 = NOT_REPLICATING
                              then d3\<lparr>replication_state := REPLICATING\<rparr> else d3))))"

definition PrepareAndStartTask :: "OperationDriver \<Rightarrow> OperationDriver result" where
  "PrepareAndStartTask d =
     (case PrepareAndStart d of
        Inl e \<Rightarrow> Inl e
      | Inr (prepare_status, d1) \<Rightarrow>
          if \<not> ok prepare_status then HandleFailure prepare_status d1 else Inr d1)"

text \<open>
  \<open>ExecuteAsync\<close> (lines 161-184); \<open>submit_result\<close> is what \<open>preparer_->Submit(this)\<close>
  answers. The debug sleep of the test flag \<open>delay_execute_async_ms\<close> only delays and is
  left out.
\<close>

definition ExecuteAsync :: "Status \<Rightarrow> OperationDriver \<Rightarrow> OperationDriver result" where
  "ExecuteAsync submit_result d =
     (let d1 = record_call Preparer_Submit d;
          d2 = (if operation d1 \<noteq> None then record_call Operation_SubmittedToPreparer d1 else d1)
      in if \<not> ok submit_result then HandleFailure submit_result d2 else Inr d2)"

definition HandleConsensusAppend :: "OpId \<Rightarrow> OpId \<Rightarrow> OperationDriver \<Rightarrow> OperationDriver result" where
  "HandleConsensusAppend op_id committed_op_id d =
     (if OpId_valid (GetOpId d) then Inl (CHECK_failed ''!GetOpId().valid()'', d)
      else
        (let d1 = d\<lparr>op_id_copy := op_id\<rparr>
         in case operation d1 of
              None \<Rightarrow> Inl (null_dereference ''operation_->state()'', d1)
            | Some opn \<Rightarrow>
                Inr (snd (StartOperation
                            (record_call (State_AddedToLeader op_id committed_op_id) d1)))))"

text \<open>
  \<open>ApplyTask\<close> (lines 370-391). The two \<open>DCHECK_EQ\<close> are compiled in only without
  \<open>NDEBUG\<close>. A non-OK status of \<open>operation_->Replicated(leader_term)\<close> is fatal.
\<close>

definition ApplyTask :: "bool \<Rightarrow> int \<Rightarrow> OpIdsPtr \<Rightarrow> OperationDriver \<Rightarrow> OperationDriver result" where
  "ApplyTask ndebug leader_term applied_op_ids d =
     (if \<not> ndebug \<and> replication_state d \<noteq> REPLICATED
        then Inl (DCHECK_failed ''replication_state_ == REPLICATED'', d)
      else if \<not> ndebug \<and> prepare_state d \<noteq> PREPARED
        then Inl (DCHECK_failed ''prepare_state_ == PREPARED'', d)
      else
        (case operation d of
           None \<Rightarrow> Inl (null_dereference ''operation_->Replicated(leader_term)'', d)
         | Some opn \<Rightarrow>
             (let d1 = record_call (Operation_Replicated leader_term) d
              in if \<not> ok (Replicated_result opn leader_term) then Inl (LOG_FATAL ''Apply failed'', d1)
                 else Inr (record_call (Tracker_Release applied_op_ids) d1))))"

text \<open>
  \<open>ReplicationFinished\<close> (lines 298-349) in three parts: the locked section with the
  two \<open>DFATAL\<close> logs around it, the polling loop, and the final dispatch (lines 343-348).

  The loop at lines 328-340 waits for another thread to set \<open>prepare_state_\<close>. A call that
  enters the loop is recorded in \<open>waiting\<close> and returns control; each later
  \<open>ReplicationFinished_poll\<close> is one iteration of the loop, which leaves the loop and runs
  the final dispatch once \<open>prepare_state_\<close> is \<open>PREPARED\<close>. A call that stays in the loop
  for ever is a driver whose \<open>waiting\<close> never becomes \<open>None\<close>.
\<close>

definition ReplicationFinished_dispatch ::
  "bool \<Rightarrow> Status \<Rightarrow> int \<Rightarrow> OpIdsPtr \<Rightarrow> OperationDriver \<Rightarrow> OperationDriver result" where
  "ReplicationFinished_dispatch ndebug status leader_term applied_op_ids d =
     (if ok status then ApplyTask ndebug leader_term applied_op_ids d
      else HandleFailure status d)"

definition ReplicationFinished ::
  "bool \<Rightarrow> Status \<Rightarrow> int \<Rightarrow> OpIdsPtr \<Rightarrow> OperationDriver \<Rightarrow> OperationDriver result" where
  "ReplicationFinished ndebug status leader_term applied_op_ids d =
     (if \<not> ndebug \<and> ok status \<and> \<not> OpId_valid (GetOpId d)
        then Inl (LOG_DFATAL ''Invalid op id after replication'', d)
      else if replication_state d = REPLICATION_FAILED then
        (if \<not> ndebug \<and> ok status
           then Inl (LOG_DFATAL ''Successfully replicated operation that was previously failed'', d)
         else Inr d)
      else if replication_state d \<noteq> REPLICATING
        then Inl (CHECK_failed ''replication_state_ == REPLICATING'', d)
      else
        (let d1 = d\<lparr>replication_state := (if ok status then REPLICATED else REPLICATION_FAILED)\<rparr>;
             prepare_state_copy = prepare_state d1
         in if prepare_state_copy \<noteq> PREPARED then
              (if \<not> ndebug
                 then Inl (LOG_DFATAL ''Replicating an operation that has not been prepared'', d1)
               else Inr (d1\<lparr>waiting := Some (status, leader_term, applied_op_ids)\<rparr>))
            else ReplicationFinished_dispatch ndebug status leader_term applied_op_ids d1))"

definition ReplicationFinished_poll :: "bool \<Rightarrow> OperationDriver \<Rightarrow> OperationDriver result" where
  "ReplicationFinished_poll ndebug d =
     (case waiting d of
        None \<Rightarrow> Inr d
      | Some (status, leader_term, applied_op_ids) \<Rightarrow>
          if prepare_state d = PREPARED
            then ReplicationFinished_dispatch ndebug status leader_term applied_op_ids
                   (d\<lparr>waiting := None\<rparr>)
          else Inr d)"

subsection \<open>Runs of one driver\<close>

text \<open>
  After \<open>Init\<close>, a driver is called by the peer (\<open>ExecuteAsync\<close>), by consensus
  (\<open>HandleConsensusAppend\<close>, \<open>ReplicationFinished\<close>), by the preparer
  (\<open>PrepareAndStartTask\<close>) and by whoever cancels it (\<open>Abort\<close>). A run applies such calls
  one after the other and stops at the first abort of the process. Each call is atomic
  in a run, except that a \<open>ReplicationFinished\<close> inside its polling loop lets other calls
  in between two polls.
\<close>

datatype event =
  ExecuteAsync_call Status
  | HandleConsensusAppend_call OpId OpId
  | PrepareAndStartTask_call
  | ReplicationFinished_call Status int OpIdsPtr
  | Abort_call Status
  | Poll

fun step :: "bool \<Rightarrow> event \<Rightarrow> OperationDriver \<Rightarrow> OperationDriver result" where
  "step ndebug (ExecuteAsync_call s) d = ExecuteAsync s d"
| "step ndebug (HandleConsensusAppend_call i c) d = HandleConsensusAppend i c d"
| "step ndebug PrepareAndStartTask_call d = PrepareAndStartTask d"
| "step ndebug (ReplicationFinished_call s t a) d = ReplicationFinished ndebug s t a d"
| "step ndebug (Abort_call s) d = Abort s d"
| "step ndebug Poll d = ReplicationFinished_poll ndebug d"

fun run :: "bool \<Rightarrow> event list \<Rightarrow> OperationDriver \<Rightarrow> OperationDriver result" where
  "run ndebug [] d = Inr d"
| "run ndebug (e # es) d =
     (case step ndebug e d of Inl x \<Rightarrow> Inl x | Inr d' \<Rightarrow> run ndebug es d')"

text \<open>The driver as it is when a call returns or when the process aborts.\<close>

fun final :: "OperationDriver result \<Rightarrow> OperationDriver" where
  "final (Inl (a, d)) = d"
| "final (Inr d) = d"

fun is_Replicated :: "call \<Rightarrow> bool" where
  "is_Replicated (Operation_Replicated t) = True"
| "is_Replicated c = False"

definition called :: "OperationDriver \<Rightarrow> call list" where
  "called d = map fst (calls d)"

subsection \<open>Predicates on drivers and example drivers\<close>

text \<open>
  How often \<open>operation_->Replicated\<close> has been called, whether a call of
  \<open>ReplicationFinished\<close> with an OK status is still inside its polling loop, and whether
  every recorded \<open>Replicated\<close> call was made in the state \<open>(REPLICATED, PREPARED)\<close>.
\<close>

definition replicated_calls :: "OperationDriver \<Rightarrow> nat" where
  "replicated_calls d = length (filter is_Replicated (called d))"

definition apply_pending :: "OperationDriver \<Rightarrow> bool" where
  "apply_pending d = (case waiting d of None \<Rightarrow> False | Some (s, t, a) \<Rightarrow> ok s)"

definition tags_ok :: "OperationDriver \<Rightarrow> bool" where
  "tags_ok d = (\<forall>(c, rs, ps) \<in> set (calls d). is_Replicated c \<longrightarrow> rs = REPLICATED \<and> ps = PREPARED)"

definition apply_inv :: "OperationDriver \<Rightarrow> bool" where
  "apply_inv d =
     (tags_ok d \<and>
      (apply_pending d \<longrightarrow> replication_state d = REPLICATED \<and> replicated_calls d = 0) \<and>
      (replication_state d \<noteq> REPLICATED \<longrightarrow> replicated_calls d = 0) \<and>
      (replicated_calls d \<le> 1))"

text \<open>
  A write operation with op-id (5, 42); the follower driver that \<open>Init\<close> makes of it; the
  same driver after its replication failed; and a leader driver before replication.
\<close>

definition example_operation :: Operation where
  "example_operation =
     \<lparr>operation_type = kWrite, state_op_id = \<lparr>opid_term = 5, opid_index = 42\<rparr>,
      Prepare_result = OK, Replicated_result = (\<lambda>t. OK)\<rparr>"

definition example_follower :: OperationDriver where
  "example_follower =
     \<lparr>operation = Some example_operation, op_id_copy = \<lparr>opid_term = 5, opid_index = 42\<rparr>,
      replication_state = REPLICATING, prepare_state = NOT_PREPARED,
      consensus_present = True, propagated_safe_time = None,
      calls = [(Tracker_Add, REPLICATING, NOT_PREPARED),
               (State_AddedToFollower, REPLICATING, NOT_PREPARED)],
      waiting = None\<rparr>"

definition example_failed :: OperationDriver where
  "example_failed =
     \<lparr>operation = Some example_operation, op_id_copy = \<lparr>opid_term = 5, opid_index = 42\<rparr>,
      replication_state = REPLICATION_FAILED, prepare_state = PREPARED,
      consensus_present = True, propagated_safe_time = None,
      calls = [(Tracker_Add, REPLICATING, NOT_PREPARED),
               (State_AddedToFollower, REPLICATING, NOT_PREPARED),
               (Operation_Prepare, REPLICATING, NOT_PREPARED),
               (Operation_Aborted (Error Aborted ''leader changed''), REPLICATION_FAILED, PREPARED),
               (Tracker_Release None, REPLICATION_FAILED, PREPARED)],
      waiting = None\<rparr>"

definition example_unreplicated :: OperationDriver where
  "example_unreplicated =
     \<lparr>operation = Some example_operation, op_id_copy = OpId_Invalid,
      replication_state = NOT_REPLICATING, prepare_state = NOT_PREPARED,
      consensus_present = False, propagated_safe_time = None,
      calls = [(Tracker_Add, NOT_REPLICATING, NOT_PREPARED)],
      waiting = None\<rparr>"

section \<open>TabletPeer\<close>

text \<open>The values of \<open>TabletStatePB\<close> that tablet_peer.cc names.\<close>

datatype TabletStatePB = NOT_STARTED | BOOTSTRAPPING | RUNNING | FAILED | QUIESCING | SHUTDOWN

fun TabletStatePB_Name :: "TabletStatePB \<Rightarrow> string" where
  "TabletStatePB_Name NOT_STARTED = ''NOT_STARTED''"
| "TabletStatePB_Name BOOTSTRAPPING = ''BOOTSTRAPPING''"
| "TabletStatePB_Name RUNNING = ''RUNNING''"
| "TabletStatePB_Name FAILED = ''FAILED''"
| "TabletStatePB_Name QUIESCING = ''QUIESCING''"
| "TabletStatePB_Name SHUTDOWN = ''SHUTDOWN''"

text \<open>
  \<open>consensus::OpId\<close> is the protobuf message with the required fields \<open>term\<close> and
  \<open>index\<close>: a field that is not set is \<open>None\<close>, \<open>IsInitialized\<close> says that both are set,
  and the accessor of an unset field gives the default 0.
\<close>

record OpIdPB =
  pb_term :: "int option"
  pb_index :: "int option"

definition IsInitialized :: "OpIdPB \<Rightarrow> bool" where
  "IsInitialized x = (pb_term x \<noteq> None \<and> pb_index x \<noteq> None)"

definition index :: "OpIdPB \<Rightarrow> int" where
  "index x = (case pb_index x of Some i \<Rightarrow> i | None \<Rightarrow> 0)"

text \<open>
  Modelled from the spec: the truth value and the order of \<open>yb::OpId\<close> (yb/util/opid.h,
  not under src/), used on the persistent op-ids: an op-id counts as set unless it is
  (0, 0), and op-ids are ordered by term, then index.
\<close>

definition OpId_set :: "OpId \<Rightarrow> bool" where
  "OpId_set x = (\<not> (opid_term x = 0 \<and> opid_index x = 0))"

definition OpId_less :: "OpId \<Rightarrow> OpId \<Rightarrow> bool" where
  "OpId_less x y =
     (opid_term x < opid_term y \<or> (opid_term x = opid_term y \<and> opid_index x < opid_index y))"

text \<open>
  The collaborators of the peer are outside src/. Each is a record of the answers it
  gives to the calls that the modelled functions make on it.
\<close>

record Log =
  GetLatestEntryOpId_index :: int

record DocDbOpIds =
  regular :: OpId
  intents :: OpId

record Tablet =
  is_transaction_status_table :: bool
  transaction_coordinator_PrepareGC :: "int option"
  last_committed_write_index :: int
  MaxPersistentOpId :: "Status + DocDbOpIds"

record Consensus =
  GetLastOpId_status :: Status
  GetLastOpId_committed :: OpIdPB

text \<open>
  The calls that the modelled functions of the peer make on the completion callback of
  an operation, on the operation, on a driver and on the collaborators; a maintenance
  op is identified by a number.
\<close>

datatype OperationResult = COMMITTED | ABORTED

datatype peer_call =
  CompleteWithStatus Status
  | Operation_Finish OperationResult
  | Driver_ExecuteAsync OperationDriver
  | Tablet_AcquireLocksAndPerformDocOperations
  | Tablet_SetShutdownRequestedFlag
  | MaintenanceOp_Unregister nat
  | Consensus_Shutdown
  | Tracker_WaitForAllToFinish
  | Preparer_Stop
  | Log_Close
  | Tablet_Shutdown

text \<open>
  The fields of the peer. \<open>prepare_thread_\<close> is only tested for null;
  \<open>log_anchor_registry_\<close> is represented by its answer to
  \<open>GetEarliestRegisteredLogIndex\<close> (the status and the index), and
  \<open>operation_tracker_\<close> by \<open>GetPendingOperations\<close>: for each pending driver, in
  order, the op-id that its \<open>GetOpId\<close> gives. \<open>peer_calls\<close> is the trace of the calls
  made so far.
\<close>

record TabletPeer =
  state :: TabletStatePB
  error :: "Status option"
  tablet :: "Tablet option"
  log :: "Log option"
  consensus :: "Consensus option"
  prepare_thread :: bool
  has_consensus :: bool
  GetEarliestRegisteredLogIndex :: "Status \<times> int"
  GetPendingOperations :: "OpIdPB list"
  maintenance_ops :: "nat list"
  peer_calls :: "peer_call list"

definition peer_call :: "peer_call \<Rightarrow> TabletPeer \<Rightarrow> TabletPeer" where
  "peer_call c p = p\<lparr>peer_calls := peer_calls p @ [c]\<rparr>"

type_synonym 'a peer_result = "(abort \<times> TabletPeer) + 'a"

definition CheckRunning :: "TabletPeer \<Rightarrow> Status" where
  "CheckRunning p =
     (if state p \<noteq> RUNNING
      then Error IllegalState
             (''The tablet is not in a running state: '' @ TabletStatePB_Name (state p))
      else OK)"

datatype DriverType = LEADER | REPLICA

text \<open>
  Modelled from the spec: \<open>NewOperationDriver\<close> hands its \<open>DriverType\<close> to
  \<open>Init\<close>, whose second parameter in operation_driver.cc is the term; the declaration
  that connects the two is not under src/. A leader driver is initialised with the
  current term of consensus and a replica driver with the unknown term.
\<close>

fun Init_term :: "int \<Rightarrow> DriverType \<Rightarrow> int" where
  "Init_term current_term LEADER = current_term"
| "Init_term current_term REPLICA = kUnknownTerm"

definition CreateOperationDriver :: "TabletPeer \<Rightarrow> OperationDriver peer_result" where
  "CreateOperationDriver p =
     (case tablet p of
        None \<Rightarrow> Inl (null_dereference ''tablet_->table_type()'', p)
      | Some t \<Rightarrow> Inr (new_OperationDriver (consensus p \<noteq> None)))"

text \<open>
  \<open>NewOperationDriver\<close> (lines 799-804) returns a \<open>Result<OperationDriverPtr>\<close>, here the
  status (\<open>Inl\<close>) or the driver (\<open>Inr\<close>), together with the caller's \<open>unique_ptr\<close> as
  \<open>Init\<close> leaves it. \<open>add_result\<close> is the answer of the tracker's \<open>Add\<close>.
\<close>

definition NewOperationDriver ::
  "Status \<Rightarrow> int \<Rightarrow> Operation option option \<Rightarrow> DriverType \<Rightarrow> TabletPeer
     \<Rightarrow> ((Status + OperationDriver) \<times> Operation option option) peer_result" where
  "NewOperationDriver add_result current_term operation_arg type p =
     (case CreateOperationDriver p of
        Inl e \<Rightarrow> Inl e
      | Inr operation_driver \<Rightarrow>
          (case Init add_result operation_arg (Init_term current_term type) operation_driver of
             Inl (a, d) \<Rightarrow> Inl (a, p)
           | Inr (s, returned, d) \<Rightarrow>
               if \<not> ok s then Inr (Inl s, returned) else Inr (Inr d, returned)))"

definition NewLeaderOperationDriver ::
  "Status \<Rightarrow> int \<Rightarrow> Operation option option \<Rightarrow> TabletPeer
     \<Rightarrow> ((Status + OperationDriver) \<times> Operation option option) peer_result" where
  "NewLeaderOperationDriver add_result current_term operation_arg p =
     NewOperationDriver add_result current_term operation_arg LEADER p"

text \<open>
  The calls on the operation after a failure, \<open>operation->...\<close>, dereference the local
  \<open>unique_ptr\<close> that was passed to \<open>NewLeaderOperationDriver\<close> by address.
\<close>

definition local_operation :: "Operation option option \<Rightarrow> Operation option" where
  "local_operation returned = (case returned of Some u \<Rightarrow> u | None \<Rightarrow> None)"

definition WriteAsync :: "TabletPeer \<Rightarrow> TabletPeer peer_result" where
  "WriteAsync p =
     (let status = CheckRunning p in
      if \<not> ok status then Inr (peer_call (CompleteWithStatus status) p)
      else case tablet p of
             None \<Rightarrow> Inl (null_dereference ''tablet_->AcquireLocksAndPerformDocOperations'', p)
           | Some t \<Rightarrow> Inr (peer_call Tablet_AcquireLocksAndPerformDocOperations p))"

definition StartExecution ::
  "Status \<Rightarrow> int \<Rightarrow> Operation \<Rightarrow> TabletPeer \<Rightarrow> TabletPeer peer_result" where
  "StartExecution add_result current_term operation_arg p =
     (case NewLeaderOperationDriver add_result current_term (Some (Some operation_arg)) p of
        Inl e \<Rightarrow> Inl e
      | Inr (Inr d, returned) \<Rightarrow> Inr (peer_call (Driver_ExecuteAsync d) p)
      | Inr (Inl status, returned) \<Rightarrow>
          (case local_operation returned of
             None \<Rightarrow> Inl (null_dereference ''operation->state()'', p)
           | Some opn \<Rightarrow> Inr (peer_call (CompleteWithStatus status) p)))"

definition Submit ::
  "Status \<Rightarrow> int \<Rightarrow> Operation \<Rightarrow> TabletPeer \<Rightarrow> TabletPeer peer_result" where
  "Submit add_result current_term operation_arg p =
     (let status = CheckRunning p in
      case (if ok status then
              (case NewLeaderOperationDriver add_result current_term
                      (Some (Some operation_arg)) p of
                 Inl e \<Rightarrow> Inl e
               | Inr (Inr d, returned) \<Rightarrow>
                   Inr (status, returned, peer_call (Driver_ExecuteAsync d) p)
               | Inr (Inl s, returned) \<Rightarrow> Inr (s, returned, p))
            else Inr (status, Some (Some operation_arg), p)) of
        Inl e \<Rightarrow> Inl e
      | Inr (status1, returned, p1) \<Rightarrow>
          if \<not> ok status1 then
            (case local_operation returned of
               None \<Rightarrow> Inl (null_dereference ''operation->Finish'', p1)
             | Some opn \<Rightarrow>
                 Inr (peer_call (CompleteWithStatus status1)
                       (peer_call (Operation_Finish ABORTED) p1)))
          else Inr p1)"

text \<open>
  \<open>SetFailed\<close> (lines 886-897). \<open>compare_exchange_weak\<close> may fail although the value is
  the expected one; \<open>spurious\<close> is the number of times it does so before it succeeds.
\<close>

fun SetFailed_loop :: "nat \<Rightarrow> TabletPeer \<Rightarrow> TabletPeer" where
  "SetFailed_loop 0 p =
     (if state p \<noteq> FAILED \<and> state p \<noteq> QUIESCING \<and> state p \<noteq> SHUTDOWN
      then p\<lparr>state := FAILED\<rparr> else p)"
| "SetFailed_loop (Suc spurious) p =
     (if state p \<noteq> FAILED \<and> state p \<noteq> QUIESCING \<and> state p \<noteq> SHUTDOWN
      then SetFailed_loop spurious p else p)"

definition SetFailed :: "bool \<Rightarrow> nat \<Rightarrow> Status \<Rightarrow> TabletPeer \<Rightarrow> TabletPeer peer_result" where
  "SetFailed ndebug spurious err p =
     (if \<not> ndebug \<and> error p \<noteq> None then Inl (DCHECK_failed ''error == nullptr'', p)
      else Inr (SetFailed_loop spurious (p\<lparr>error := Some err\<rparr>)))"

subsection \<open>Operation types on the wire\<close>

datatype consensus_OperationType =
  UNKNOWN_OP | NO_OP | WRITE_OP | ALTER_SCHEMA_OP | UPDATE_TRANSACTION_OP | SNAPSHOT_OP
  | TRUNCATE_OP | CHANGE_CONFIG_OP

fun MapOperationTypeToPB :: "OperationType \<Rightarrow> abort + consensus_OperationType" where
  "MapOperationTypeToPB kWrite = Inr WRITE_OP"
| "MapOperationTypeToPB kAlterSchema = Inr ALTER_SCHEMA_OP"
| "MapOperationTypeToPB kUpdateTransaction = Inr UPDATE_TRANSACTION_OP"
| "MapOperationTypeToPB kSnapshot = Inr SNAPSHOT_OP"
| "MapOperationTypeToPB kTruncate = Inr TRUNCATE_OP"
| "MapOperationTypeToPB kEmpty =
     Inl (LOG_FATAL ''OperationType::kEmpty cannot be converted to consensus::OperationType'')"

record ReplicateMsg =
  op_type :: consensus_OperationType
  has_write_request :: bool
  has_alter_schema_request :: bool
  has_transaction_state :: bool
  has_truncate_request :: bool

text \<open>
  The operation objects that \<open>CreateOperation\<close> constructs, each with the driver type
  given to its constructor.
\<close>

datatype ReplicaOperation =
  WriteOperation DriverType
  | AlterSchemaOperation DriverType
  | UpdateTxnOperation DriverType
  | TruncateOperation DriverType

text \<open>
  Modelled from the spec: the \<open>operation_type()\<close> of the operation classes, whose
  headers are not under src/: each class is the variant of its name.
\<close>

fun ReplicaOperation_type :: "ReplicaOperation \<Rightarrow> OperationType" where
  "ReplicaOperation_type (WriteOperation t) = kWrite"
| "ReplicaOperation_type (AlterSchemaOperation t) = kAlterSchema"
| "ReplicaOperation_type (UpdateTxnOperation t) = kUpdateTransaction"
| "ReplicaOperation_type (TruncateOperation t) = kTruncate"

text \<open>
  \<open>CreateOperation\<close> (lines 697-731). \<open>log()\<close> (lines 683-687) is fatal when the log is
  not there yet.
\<close>

definition CreateOperation :: "bool \<Rightarrow> ReplicateMsg \<Rightarrow> TabletPeer \<Rightarrow> abort + ReplicaOperation" where
  "CreateOperation ndebug replicate_msg p =
     (case op_type replicate_msg of
        WRITE_OP \<Rightarrow>
          if \<not> ndebug \<and> \<not> has_write_request replicate_msg
          then Inl (DCHECK_failed ''replicate_msg->has_write_request()'')
          else Inr (WriteOperation REPLICA)
      | ALTER_SCHEMA_OP \<Rightarrow>
          if \<not> ndebug \<and> \<not> has_alter_schema_request replicate_msg
          then Inl (DCHECK_failed ''replicate_msg->has_alter_schema_request()'')
          else if log p = None
          then Inl (LOG_FATAL ''log() called before the log instance is initialized.'')
          else Inr (AlterSchemaOperation REPLICA)
      | UPDATE_TRANSACTION_OP \<Rightarrow>
          if \<not> ndebug \<and> \<not> has_transaction_state replicate_msg
          then Inl (DCHECK_failed ''replicate_msg->has_transaction_state()'')
          else Inr (UpdateTxnOperation REPLICA)
      | TRUNCATE_OP \<Rightarrow>
          if \<not> ndebug \<and> \<not> has_truncate_request replicate_msg
          then Inl (DCHECK_failed ''replicate_msg->has_truncate_request()'')
          else Inr (TruncateOperation REPLICA)
      | SNAPSHOT_OP \<Rightarrow> Inl (LOG_FATAL ''FATAL_INVALID_ENUM_VALUE(consensus::OperationType)'')
      | UNKNOWN_OP \<Rightarrow> Inl (LOG_FATAL ''FATAL_INVALID_ENUM_VALUE(consensus::OperationType)'')
      | NO_OP \<Rightarrow> Inl (LOG_FATAL ''FATAL_INVALID_ENUM_VALUE(consensus::OperationType)'')
      | CHANGE_CONFIG_OP \<Rightarrow> Inl (LOG_FATAL ''FATAL_INVALID_ENUM_VALUE(consensus::OperationType)''))"

subsection \<open>The earliest needed log index\<close>

text \<open>
  \<open>GetEarliestNeededLogIndex\<close> (lines 598-665), block by block. The result is the
  returned status with the value left in \<open>*min_index\<close>.
\<close>

definition min_with_anchor :: "bool \<Rightarrow> TabletPeer \<Rightarrow> int \<Rightarrow> abort + int" where
  "min_with_anchor ndebug p min_index =
     (let s = fst (GetEarliestRegisteredLogIndex p);
          min_anchor_index = snd (GetEarliestRegisteredLogIndex p)
      in if \<not> ok s then
           (if \<not> ndebug \<and> \<not> IsNotFound s then Inl (DCHECK_failed ''s.IsNotFound()'')
            else Inr min_index)
         else Inr (min min_index min_anchor_index))"

definition min_with_pending :: "OpIdPB list \<Rightarrow> int \<Rightarrow> int" where
  "min_with_pending pending min_index =
     fold (\<lambda>tx_op_id m. if IsInitialized tx_op_id then min m (index tx_op_id) else m)
       pending min_index"

definition min_with_coordinator :: "Tablet \<Rightarrow> int \<Rightarrow> int" where
  "min_with_coordinator t min_index =
     (case transaction_coordinator_PrepareGC t of
        None \<Rightarrow> min_index
      | Some gc \<Rightarrow> min min_index gc)"

definition min_with_persistent :: "Tablet \<Rightarrow> int \<Rightarrow> Status + int" where
  "min_with_persistent t min_index =
     (if \<not> is_transaction_status_table t then
        (case MaxPersistentOpId t of
           Inl s \<Rightarrow> Inl s
         | Inr max_persistent_op_id \<Rightarrow>
             (let max_persistent_index =
                    (if OpId_set (intents max_persistent_op_id) \<and>
                        OpId_less (intents max_persistent_op_id) (regular max_persistent_op_id)
                     then opid_index (intents max_persistent_op_id)
                     else opid_index (regular max_persistent_op_id))
              in if max_persistent_index < last_committed_write_index t
                 then Inr (min min_index max_persistent_index)
                 else Inr min_index))
      else Inr min_index)"

definition min_with_committed :: "Consensus \<Rightarrow> int \<Rightarrow> Status \<times> int" where
  "min_with_committed c min_index =
     (let get_committed_op_id_status = GetLastOpId_status c in
      if \<not> IsNotFound get_committed_op_id_status then
        (if \<not> ok get_committed_op_id_status then (get_committed_op_id_status, min_index)
         else (OK, min min_index (index (GetLastOpId_committed c))))
      else (OK, min_index))"

definition GetEarliestNeededLogIndex :: "bool \<Rightarrow> TabletPeer \<Rightarrow> abort + (Status \<times> int)" where
  "GetEarliestNeededLogIndex ndebug p =
     (case log p of
        None \<Rightarrow> Inl (null_dereference ''log_->GetLatestEntryOpId()'')
      | Some lg \<Rightarrow>
          (let m0 = GetLatestEntryOpId_index lg in
           if m0 = 0 then Inr (OK, m0)
           else
             (case min_with_anchor ndebug p m0 of
                Inl a \<Rightarrow> Inl a
              | Inr m1 \<Rightarrow>
                  (let m2 = min_with_pending (GetPendingOperations p) m1 in
                   case tablet p of
                     None \<Rightarrow> Inl (null_dereference ''tablet()->transaction_coordinator()'')
                   | Some t \<Rightarrow>
                       (let m3 = min_with_coordinator t m2 in
                        case min_with_persistent t m3 of
                          Inl s \<Rightarrow> Inr (s, m3)
                        | Inr m4 \<Rightarrow>
                            (case consensus p of
                               None \<Rightarrow> Inl (null_dereference ''consensus()->GetLastOpId'')
                             | Some c \<Rightarrow> Inr (min_with_committed c m4)))))))"

subsection \<open>Predicates on peers and an example peer\<close>

text \<open>
  A replicate message carries the request that belongs to its op-type; the peer as it is
  when a call returns or the process aborts; a running peer with two pending drivers, of
  which one has published its op-id.
\<close>

definition carries_request :: "ReplicateMsg \<Rightarrow> bool" where
  "carries_request m =
     (case op_type m of
        WRITE_OP \<Rightarrow> has_write_request m
      | ALTER_SCHEMA_OP \<Rightarrow> has_alter_schema_request m
      | UPDATE_TRANSACTION_OP \<Rightarrow> has_transaction_state m
      | TRUNCATE_OP \<Rightarrow> has_truncate_request m
      | _ \<Rightarrow> True)"

definition final_peer :: "TabletPeer peer_result \<Rightarrow> TabletPeer" where
  "final_peer r = (case r of Inl (a, p) \<Rightarrow> p | Inr p \<Rightarrow> p)"

definition example_tablet :: Tablet where
  "example_tablet =
     \<lparr>is_transaction_status_table = False, transaction_coordinator_PrepareGC = Some 70,
      last_committed_write_index = 95,
      MaxPersistentOpId = Inr \<lparr>regular = \<lparr>opid_term = 5, opid_index = 80\<rparr>,
                               intents = \<lparr>opid_term = 5, opid_index = 60\<rparr>\<rparr>\<rparr>"

definition example_peer :: TabletPeer where
  "example_peer =
     \<lparr>state = RUNNING, error = None, tablet = Some example_tablet,
      log = Some \<lparr>GetLatestEntryOpId_index = 100\<rparr>,
      consensus = Some \<lparr>GetLastOpId_status = OK,
                         GetLastOpId_committed = \<lparr>pb_term = Some 5, pb_index = Some 90\<rparr>\<rparr>,
      prepare_thread = True, has_consensus = True,
      GetEarliestRegisteredLogIndex = (OK, 50),
      GetPendingOperations = [\<lparr>pb_term = Some 5, pb_index = Some 42\<rparr>,
                              \<lparr>pb_term = None, pb_index = None\<rparr>],
      maintenance_ops = [0], peer_calls = []\<rparr>"

definition example_msg :: "consensus_OperationType \<Rightarrow> ReplicateMsg" where
  "example_msg t =
     \<lparr>op_type = t, has_write_request = (t = WRITE_OP),
      has_alter_schema_request = (t = ALTER_SCHEMA_OP),
      has_transaction_state = (t = UPDATE_TRANSACTION_OP),
      has_truncate_request = (t = TRUNCATE_OP)\<rparr>"

subsection \<open>Shutdown\<close>


definition UnregisterMaintenanceOps :: "TabletPeer \<Rightarrow> TabletPeer" where
  "UnregisterMaintenanceOps p =
     (fold (\<lambda>op q. peer_call (MaintenanceOp_Unregister op) q) (maintenance_ops p) p)
       \<lparr>maintenance_ops := []\<rparr>"

text \<open>
  \<open>StartShutdown\<close> (lines 309-342). No other thread changes \<open>state_\<close> between the load
  and the \<open>compare_exchange_strong\<close> of one atomic step, so the exchange succeeds.
\<close>

definition StartShutdown :: "TabletPeer \<Rightarrow> bool \<times> TabletPeer" where
  "StartShutdown p =
     (let p1 = (if tablet p \<noteq> None then peer_call Tablet_SetShutdownRequestedFlag p else p)
      in if state p1 = QUIESCING \<or> state p1 = SHUTDOWN then (False, p1)
         else
           (let p2 = p1\<lparr>state := QUIESCING\<rparr>;
                p3 = UnregisterMaintenanceOps p2;
                p4 = (if consensus p3 \<noteq> None then peer_call Consensus_Shutdown p3 else p3)
            in (True, p4)))"

text \<open>
  Modelled from the spec: \<open>OperationTracker::WaitForAllToFinish\<close> is not under src/; it
  blocks until the set of pending drivers is empty. A thread that is alone never sees
  the set change, so on a non-empty set the call does not return.
\<close>

partial_function (option) WaitForAllToFinish :: "TabletPeer \<Rightarrow> TabletPeer option" where
  "WaitForAllToFinish p =
     (if GetPendingOperations p \<noteq> [] then WaitForAllToFinish p
      else Some (peer_call Tracker_WaitForAllToFinish p))"

text \<open>\<open>CompleteShutdown\<close> (lines 344-380) after the wait for the tracker.\<close>

definition CompleteShutdown_rest :: "bool \<Rightarrow> TabletPeer \<Rightarrow> TabletPeer peer_result" where
  "CompleteShutdown_rest ndebug p =
     (let p1 = (if prepare_thread p then peer_call Preparer_Stop p else p);
          p2 = (if log p1 \<noteq> None then peer_call Log_Close p1 else p1);
          p3 = (if tablet p2 \<noteq> None then peer_call Tablet_Shutdown p2 else p2);
          p4 = p3\<lparr>has_consensus := False, consensus := None, prepare_thread := False,
                  tablet := None\<rparr>
      in if \<not> ndebug \<and> state p4 \<noteq> QUIESCING
         then Inl (LOG_DFATAL ''Bad state when completing shutdown'', p4)
         else Inr (p4\<lparr>state := SHUTDOWN\<rparr>))"

definition CompleteShutdown :: "bool \<Rightarrow> TabletPeer \<Rightarrow> TabletPeer peer_result option" where
  "CompleteShutdown ndebug p =
     (case WaitForAllToFinish p of
        None \<Rightarrow> None
      | Some p1 \<Rightarrow> Some (CompleteShutdown_rest ndebug p1))"

partial_function (option) WaitUntilShutdown :: "TabletPeer \<Rightarrow> TabletPeer option" where
  "WaitUntilShutdown p = (if state p \<noteq> SHUTDOWN then WaitUntilShutdown p else Some p)"

definition Shutdown :: "bool \<Rightarrow> TabletPeer \<Rightarrow> TabletPeer peer_result option" where
  "Shutdown ndebug p =
     (let started = StartShutdown p in
      if fst started then CompleteShutdown ndebug (snd started)
      else (case WaitUntilShutdown (snd started) of None \<Rightarrow> None | Some p1 \<Rightarrow> Some (Inr p1)))"

subsection \<open>Concurrent callers of Shutdown\<close>

text \<open>
  Several threads call \<open>Shutdown\<close> on one peer. A thread is about to enter
  \<open>StartShutdown\<close>, or inside \<open>WaitForAllToFinish\<close>, or in the rest of \<open>CompleteShutdown\<close>,
  or inside the loop of \<open>WaitUntilShutdown\<close>, or it has returned (with what its
  \<open>StartShutdown\<close> answered). Each thread keeps the calls it made itself.
\<close>

datatype shutdown_pc = Entering | Draining | Finishing | Polling | Returned bool

record caller =
  pc :: shutdown_pc
  own_calls :: "peer_call list"

text \<open>
  The system is the peer, the callers and whether the process has aborted, with two
  history variables: whether the wait for the tracker of some caller has returned, and
  whether a driver has been registered after that.
\<close>

record system =
  peer :: TabletPeer
  callers :: "nat \<Rightarrow> caller"
  crashed :: "abort option"
  tracker_wait_returned :: bool
  registered_after_wait :: bool

definition new_calls :: "TabletPeer \<Rightarrow> TabletPeer \<Rightarrow> peer_call list" where
  "new_calls p p' = drop (length (peer_calls p)) (peer_calls p')"










text \<open>The calls of the caller whose \<open>StartShutdown\<close> answers true, in order.\<close>

definition StartShutdown_calls :: "TabletPeer \<Rightarrow> peer_call list" where
  "StartShutdown_calls p0 =
     (if tablet p0 \<noteq> None then [Tablet_SetShutdownRequestedFlag] else []) @
     map MaintenanceOp_Unregister (maintenance_ops p0) @
     (if consensus p0 \<noteq> None then [Consensus_Shutdown] else [])"

definition CompleteShutdown_calls :: "TabletPeer \<Rightarrow> peer_call list" where
  "CompleteShutdown_calls p0 =
     [Tracker_WaitForAllToFinish] @
     (if prepare_thread p0 then [Preparer_Stop] else []) @
     (if log p0 \<noteq> None then [Log_Close] else []) @
     (if tablet p0 \<noteq> None then [Tablet_Shutdown] else [])"

definition same_components :: "TabletPeer \<Rightarrow> TabletPeer \<Rightarrow> bool" where
  "same_components p p0 =
     (tablet p = tablet p0 \<and> log p = log p0 \<and> consensus p = consensus p0 \<and>
      prepare_thread p = prepare_thread p0)"

definition caller_inv :: "TabletPeer \<Rightarrow> TabletPeer \<Rightarrow> caller \<Rightarrow> bool" where
  "caller_inv p0 p c =
     (case pc c of
        Entering \<Rightarrow> own_calls c = []
      | Polling \<Rightarrow>
          set (own_calls c) \<subseteq> {Tablet_SetShutdownRequestedFlag} \<and>
          (state p = QUIESCING \<or> state p = SHUTDOWN)
      | Returned False \<Rightarrow>
          set (own_calls c) \<subseteq> {Tablet_SetShutdownRequestedFlag} \<and> state p = SHUTDOWN
      | Draining \<Rightarrow>
          own_calls c = StartShutdown_calls p0 \<and> state p = QUIESCING \<and> same_components p p0
      | Finishing \<Rightarrow>
          own_calls c = StartShutdown_calls p0 @ [Tracker_WaitForAllToFinish] \<and>
          state p = QUIESCING \<and> same_components p p0
      | Returned True \<Rightarrow>
          own_calls c = StartShutdown_calls p0 @ CompleteShutdown_calls p0 \<and> state p = SHUTDOWN)"

definition first_caller :: "system \<Rightarrow> nat \<Rightarrow> bool" where
  "first_caller s t =
     (pc (callers s t) = Draining \<or> pc (callers s t) = Finishing \<or>
      pc (callers s t) = Returned True)"

definition sys_inv :: "TabletPeer \<Rightarrow> system \<Rightarrow> bool" where
  "sys_inv p0 s =
     ((\<forall>t. caller_inv p0 (peer s) (callers s t)) \<and>
      (\<forall>t t'. first_caller s t \<and> first_caller s t' \<longrightarrow> t = t') \<and>
      (state (peer s) \<noteq> QUIESCING \<and> state (peer s) \<noteq> SHUTDOWN \<longrightarrow>
         same_components (peer s) p0 \<and> maintenance_ops (peer s) = maintenance_ops p0))"




section \<open>Properties of the driver\<close>

subsection \<open>Apply runs at most once, and only when prepared and replicated\<close>

lemma record_call_fields [simp]:
  "operation (record_call c d) = operation d"
  "op_id_copy (record_call c d) = op_id_copy d"
  "replication_state (record_call c d) = replication_state d"
  "prepare_state (record_call c d) = prepare_state d"
  "waiting (record_call c d) = waiting d"
  "propagated_safe_time (record_call c d) = propagated_safe_time d"
  "calls (record_call c d) = calls d @ [(c, replication_state d, prepare_state d)]"
  by (simp_all add: record_call_def)

lemma apply_inv_record_call:
  "apply_inv d \<Longrightarrow> \<not> is_Replicated c \<Longrightarrow> apply_inv (record_call c d)"
  by (auto simp: apply_inv_def tags_ok_def apply_pending_def replicated_calls_def called_def)

lemma HandleFailure_keeps: "apply_inv d \<Longrightarrow> apply_inv (final (HandleFailure s d))"
  by (auto simp: HandleFailure_def Let_def apply_inv_record_call split: option.splits)

lemma Abort_keeps: "apply_inv d \<Longrightarrow> apply_inv (final (Abort s d))"
  by (auto simp: Abort_def Let_def HandleFailure_keeps)

lemma ExecuteAsync_keeps: "apply_inv d \<Longrightarrow> apply_inv (final (ExecuteAsync s d))"
  by (auto simp: ExecuteAsync_def Let_def HandleFailure_keeps apply_inv_record_call)

lemma StartOperation_keeps: "apply_inv d \<Longrightarrow> apply_inv (snd (StartOperation d))"
  by (auto simp: StartOperation_def Let_def apply_inv_record_call split: option.splits)

lemma StartOperation_axes [simp]:
  "replication_state (snd (StartOperation d)) = replication_state d"
  "prepare_state (snd (StartOperation d)) = prepare_state d"
  "waiting (snd (StartOperation d)) = waiting d"
  by (auto simp: StartOperation_def Let_def split: option.splits)

lemma HandleConsensusAppend_keeps:
  "apply_inv d \<Longrightarrow> apply_inv (final (HandleConsensusAppend i c d))"
proof -
  assume a: "apply_inv d"
  have b: "apply_inv (d\<lparr>op_id_copy := i\<rparr>)"
    using a by (simp add: apply_inv_def tags_ok_def apply_pending_def replicated_calls_def called_def)
  show ?thesis
    using a b
    by (auto simp: HandleConsensusAppend_def Let_def StartOperation_keeps apply_inv_record_call
        split: option.splits)
qed

lemma apply_inv_prepared:
  "apply_inv d \<Longrightarrow> apply_inv (d\<lparr>prepare_state := p\<rparr>)"
  by (simp add: apply_inv_def tags_ok_def apply_pending_def replicated_calls_def called_def)

lemma apply_inv_replicating:
  "apply_inv d \<Longrightarrow> replication_state d = NOT_REPLICATING
     \<Longrightarrow> apply_inv (d\<lparr>replication_state := REPLICATING\<rparr>)"
  by (auto simp add: apply_inv_def tags_ok_def apply_pending_def replicated_calls_def called_def)

lemma PrepareAndStart_keeps:
  "apply_inv d \<Longrightarrow> apply_inv (case PrepareAndStart d of Inl (a, d') \<Rightarrow> d' | Inr (s, d') \<Rightarrow> d')"
  apply (cases "operation d")
   apply (auto simp: PrepareAndStart_def Let_def StartOperation_keeps apply_inv_record_call
      apply_inv_prepared apply_inv_replicating)
  done

lemma PrepareAndStartTask_keeps: "apply_inv d \<Longrightarrow> apply_inv (final (PrepareAndStartTask d))"
  using PrepareAndStart_keeps [of d]
  by (auto simp: PrepareAndStartTask_def HandleFailure_keeps split: sum.splits)

lemma ApplyTask_keeps:
  "tags_ok d \<Longrightarrow> replicated_calls d = 0 \<Longrightarrow> \<not> apply_pending d \<Longrightarrow>
   replication_state d = REPLICATED \<Longrightarrow> prepare_state d = PREPARED \<Longrightarrow>
   apply_inv (final (ApplyTask ndebug t a d))"
  by (auto simp: ApplyTask_def Let_def apply_inv_def tags_ok_def apply_pending_def
      replicated_calls_def called_def split: option.splits)

lemma dispatch_keeps:
  assumes "tags_ok d" "replicated_calls d = 0" "\<not> apply_pending d"
    "prepare_state d = PREPARED"
    "replication_state d = (if ok s then REPLICATED else REPLICATION_FAILED)"
  shows "apply_inv (final (ReplicationFinished_dispatch ndebug s t a d))"
proof (cases "ok s")
  case True
  with assms show ?thesis
    by (simp add: ReplicationFinished_dispatch_def ApplyTask_keeps)
next
  case False
  with assms have "apply_inv d"
    by (simp add: apply_inv_def)
  with False show ?thesis
    by (simp add: ReplicationFinished_dispatch_def HandleFailure_keeps)
qed

lemma ReplicationFinished_keeps:
  assumes inv: "apply_inv d"
  shows "apply_inv (final (ReplicationFinished ndebug s t a d))"
proof (cases "replication_state d = REPLICATING")
  case False
  with inv show ?thesis
    by (simp add: ReplicationFinished_def)
next
  case True
  define d1 where "d1 = d\<lparr>replication_state := (if ok s then REPLICATED else REPLICATION_FAILED)\<rparr>"
  from inv True have zero: "replicated_calls d = 0" and np: "\<not> apply_pending d"
    and tg: "tags_ok d"
    by (auto simp: apply_inv_def)
  have d1_facts: "tags_ok d1" "replicated_calls d1 = 0" "\<not> apply_pending d1"
    "replication_state d1 = (if ok s then REPLICATED else REPLICATION_FAILED)"
    "prepare_state d1 = prepare_state d"
    using zero np tg
    by (simp_all add: d1_def tags_ok_def replicated_calls_def called_def apply_pending_def)
  have stay: "apply_inv d1"
    using d1_facts by (simp add: apply_inv_def)
  have wait: "apply_inv (d1\<lparr>waiting := Some (s, t, a)\<rparr>)"
    using d1_facts
    by (simp add: apply_inv_def tags_ok_def replicated_calls_def called_def apply_pending_def)
  have go: "prepare_state d = PREPARED \<Longrightarrow>
      apply_inv (final (ReplicationFinished_dispatch ndebug s t a d1))"
    using d1_facts by (intro dispatch_keeps) simp_all
  show ?thesis
    using True inv stay wait go d1_facts(5)
    by (cases ndebug) (auto simp add: ReplicationFinished_def Let_def d1_def [symmetric])
qed

lemma poll_keeps:
  assumes inv: "apply_inv d"
  shows "apply_inv (final (ReplicationFinished_poll ndebug d))"
proof (cases "waiting d")
  case None
  with inv show ?thesis by (simp add: ReplicationFinished_poll_def)
next
  case (Some w)
  obtain s t a where w: "w = (s, t, a)" by (cases w)
  show ?thesis
  proof (cases "prepare_state d = PREPARED")
    case False
    with inv Some w show ?thesis by (simp add: ReplicationFinished_poll_def)
  next
    case True
    define d1 where "d1 = d\<lparr>waiting := None\<rparr>"
    have base: "tags_ok d1" "\<not> apply_pending d1" "prepare_state d1 = PREPARED"
      "replicated_calls d1 = replicated_calls d" "replication_state d1 = replication_state d"
      using inv True
      by (simp_all add: d1_def apply_inv_def tags_ok_def replicated_calls_def called_def
          apply_pending_def)
    show ?thesis
    proof (cases "ok s")
      case ok: True
      with inv Some w have "replication_state d = REPLICATED" "replicated_calls d = 0"
        by (simp_all add: apply_inv_def apply_pending_def)
      with base ok have "apply_inv (final (ReplicationFinished_dispatch ndebug s t a d1))"
        by (intro dispatch_keeps) simp_all
      with Some w True show ?thesis
        by (simp add: ReplicationFinished_poll_def d1_def)
    next
      case nok: False
      have "apply_inv d1"
        using inv by (simp add: d1_def apply_inv_def tags_ok_def replicated_calls_def called_def
            apply_pending_def)
      then have "apply_inv (final (HandleFailure s d1))"
        by (rule HandleFailure_keeps)
      with Some w True nok show ?thesis
        by (simp add: ReplicationFinished_poll_def ReplicationFinished_dispatch_def d1_def)
    qed
  qed
qed

lemma step_keeps: "apply_inv d \<Longrightarrow> apply_inv (final (step ndebug e d))"
  by (cases e)
    (simp_all add: ExecuteAsync_keeps HandleConsensusAppend_keeps PrepareAndStartTask_keeps
      ReplicationFinished_keeps Abort_keeps poll_keeps)

lemma run_keeps: "apply_inv d \<Longrightarrow> apply_inv (final (run ndebug es d))"
proof (induction es arbitrary: d)
  case Nil
  then show ?case by simp
next
  case (Cons e es)
  show ?case
  proof (cases "step ndebug e d")
    case (Inl x)
    with step_keeps [OF Cons.prems, of ndebug e] show ?thesis by simp
  next
    case (Inr d')
    with step_keeps [OF Cons.prems, of ndebug e] have "apply_inv d'" by simp
    with Inr Cons.IH show ?thesis by simp
  qed
qed

lemma Init_apply_inv:
  assumes "Init add_result operation_arg trm (new_OperationDriver c) = Inr (st, back, d0)"
  shows "apply_inv d0"
  using assms
  by (auto simp: Init_def Init_replicating_def new_OperationDriver_def Let_def apply_inv_def
      tags_ok_def replicated_calls_def called_def apply_pending_def record_call_def
      split: option.splits if_splits)

lemma example_follower_Init:
  "Init OK (Some (Some example_operation)) kUnknownTerm (new_OperationDriver True) =
     Inr (OK, Some None, example_follower)"
  by (simp add: Init_def Init_replicating_def new_OperationDriver_def record_call_def
      example_follower_def example_operation_def)

lemma example_failed_run:
  "run ndebug [PrepareAndStartTask_call,
               ReplicationFinished_call (Error Aborted ''leader changed'') 5 None] example_follower =
     Inr example_failed"
  by (simp add: PrepareAndStartTask_def PrepareAndStart_def StartOperation_def
      ReplicationFinished_def ReplicationFinished_dispatch_def HandleFailure_def
      record_call_def example_follower_def example_failed_def example_operation_def GetOpId_def
      OpId_valid_def)

lemma example_apply_run:
  "called (final (run True [ExecuteAsync_call OK, ReplicationFinished_call OK 5 (Some 0), Poll,
                            PrepareAndStartTask_call, Poll] example_follower)) =
     [Tracker_Add, State_AddedToFollower, Preparer_Submit, Operation_SubmittedToPreparer,
      Operation_Prepare, Operation_Replicated 5, Tracker_Release (Some 0)]"
  by (simp add: ExecuteAsync_def PrepareAndStartTask_def PrepareAndStart_def StartOperation_def
      ReplicationFinished_def ReplicationFinished_dispatch_def ReplicationFinished_poll_def
      ApplyTask_def called_def
      record_call_def example_follower_def example_operation_def GetOpId_def
      OpId_valid_def)

text \<open>
  Claim C1. Take a driver as its constructor and \<open>Init\<close> leave it, in leader or follower
  mode, and let any sequence of calls run on it, in a debug or a release build. In the
  trace of the driver, at the end of the run or at the abort of the process,
  \<open>operation_->Replicated\<close> occurs at most once, and every occurrence was made while
  \<open>replication_state_\<close> was \<open>REPLICATED\<close> and \<open>prepare_state_\<close> was \<open>PREPARED\<close>.
\<close>

theorem single_apply:
  assumes "Init add_result operation_arg trm (new_OperationDriver c) = Inr (st, back, d0)"
  shows "length (filter is_Replicated (called (final (run ndebug es d0)))) \<le> 1 \<and>
         (\<forall>(c, rs, ps) \<in> set (calls (final (run ndebug es d0))).
            is_Replicated c \<longrightarrow> rs = REPLICATED \<and> ps = PREPARED)"
  using run_keeps [OF Init_apply_inv [OF assms], of ndebug es]
  by (simp add: apply_inv_def tags_ok_def replicated_calls_def)

text \<open>
  An instance: a follower whose replication finishes before it is prepared, in a release
  build. The call waits in its loop, the preparer prepares the operation, and the next
  poll applies it: \<open>Replicated\<close> is called once.
\<close>

theorem single_apply_witness:
  "Init OK (Some (Some example_operation)) kUnknownTerm (new_OperationDriver True) =
     Inr (OK, Some None, example_follower) \<and>
   length (filter is_Replicated
     (called (final (run True [ExecuteAsync_call OK, ReplicationFinished_call OK 5 (Some 0), Poll,
                               PrepareAndStartTask_call, Poll] example_follower)))) = 1"
  using single_apply [OF example_follower_Init, of True
      "[ExecuteAsync_call OK, ReplicationFinished_call OK 5 (Some 0), Poll,
        PrepareAndStartTask_call, Poll]"]
    example_follower_Init example_apply_run
  by simp

subsection \<open>Failure handling\<close>

text \<open>
  Claim C2. \<open>HandleFailure\<close> with a non-OK status: when \<open>replication_state_\<close> is
  \<open>NOT_REPLICATING\<close> or \<open>REPLICATION_FAILED\<close> (and the driver owns an operation, on which
  the call is made), it calls \<open>operation_->Aborted(status)\<close>, releases the driver from the
  tracker and returns, changing nothing else; when it is \<open>REPLICATING\<close> or \<open>REPLICATED\<close>
  the process aborts at \<open>LOG(FATAL)\<close> with the driver as it was, so that \<open>Aborted\<close> has
  not been called.
\<close>

theorem HandleFailure_asymmetric:
  assumes "\<not> ok status"
  shows "(replication_state d \<in> {NOT_REPLICATING, REPLICATION_FAILED} \<and> operation d \<noteq> None \<longrightarrow>
            HandleFailure status d =
              Inr (d\<lparr>calls := calls d @
                     [(Operation_Aborted status, replication_state d, prepare_state d),
                      (Tracker_Release None, replication_state d, prepare_state d)]\<rparr>)) \<and>
         (replication_state d \<in> {REPLICATING, REPLICATED} \<longrightarrow>
            HandleFailure status d =
              Inl (LOG_FATAL ''Cannot cancel operations that have already replicated'', d))"
  using assms by (auto simp: HandleFailure_def record_call_def)

theorem HandleFailure_asymmetric_witness:
  "\<not> ok (Error Aborted ''cancelled'') \<and>
   HandleFailure (Error Aborted ''cancelled'') example_unreplicated =
     Inr (example_unreplicated\<lparr>calls :=
            [(Tracker_Add, NOT_REPLICATING, NOT_PREPARED),
             (Operation_Aborted (Error Aborted ''cancelled''), NOT_REPLICATING, NOT_PREPARED),
             (Tracker_Release None, NOT_REPLICATING, NOT_PREPARED)]\<rparr>) \<and>
   HandleFailure (Error Aborted ''cancelled'') example_follower =
     Inl (LOG_FATAL ''Cannot cancel operations that have already replicated'', example_follower)"
  using HandleFailure_asymmetric [of "Error Aborted ''cancelled''" example_unreplicated]
    HandleFailure_asymmetric [of "Error Aborted ''cancelled''" example_follower]
  by (simp add: example_unreplicated_def example_follower_def)

text \<open>
  Claim C3. \<open>Abort\<close> with a non-OK status returns the driver unchanged (no call, no
  release, both axes as they were) when \<open>replication_state_\<close> is \<open>REPLICATING\<close> or
  \<open>REPLICATED\<close>, and also when it is \<open>REPLICATION_FAILED\<close>; only in \<open>NOT_REPLICATING\<close>
  it runs the failure path: \<open>operation_->Aborted(status)\<close> and the release from the
  tracker.
\<close>

theorem Abort_only_before_replication:
  assumes "\<not> ok status"
  shows "(replication_state d \<in> {REPLICATING, REPLICATED} \<longrightarrow> Abort status d = Inr d) \<and>
         (replication_state d = REPLICATION_FAILED \<longrightarrow> Abort status d = Inr d) \<and>
         (replication_state d = NOT_REPLICATING \<and> operation d \<noteq> None \<longrightarrow>
            Abort status d =
              Inr (d\<lparr>calls := calls d @
                     [(Operation_Aborted status, NOT_REPLICATING, prepare_state d),
                      (Tracker_Release None, NOT_REPLICATING, prepare_state d)]\<rparr>))"
  using assms by (auto simp: Abort_def HandleFailure_def record_call_def)

theorem Abort_only_before_replication_witness:
  "\<not> ok (Error Aborted ''cancelled'') \<and>
   Abort (Error Aborted ''cancelled'') example_follower = Inr example_follower \<and>
   Abort (Error Aborted ''cancelled'') example_failed = Inr example_failed \<and>
   Abort (Error Aborted ''cancelled'') example_unreplicated =
     Inr (example_unreplicated\<lparr>calls :=
            [(Tracker_Add, NOT_REPLICATING, NOT_PREPARED),
             (Operation_Aborted (Error Aborted ''cancelled''), NOT_REPLICATING, NOT_PREPARED),
             (Tracker_Release None, NOT_REPLICATING, NOT_PREPARED)]\<rparr>)"
  using Abort_only_before_replication [of "Error Aborted ''cancelled''" example_follower]
    Abort_only_before_replication [of "Error Aborted ''cancelled''" example_failed]
    Abort_only_before_replication [of "Error Aborted ''cancelled''" example_unreplicated]
  by (simp add: example_unreplicated_def example_follower_def example_failed_def)

subsection \<open>A failed replication stays failed\<close>

lemma HandleFailure_repl [simp]:
  "replication_state (final (HandleFailure s d)) = replication_state d"
  by (simp add: HandleFailure_def Let_def split: option.splits)

lemma Abort_repl [simp]: "replication_state (final (Abort s d)) = replication_state d"
  by (simp add: Abort_def Let_def)

lemma ExecuteAsync_repl [simp]:
  "replication_state (final (ExecuteAsync s d)) = replication_state d"
  by (simp add: ExecuteAsync_def Let_def)

lemma HandleConsensusAppend_repl [simp]:
  "replication_state (final (HandleConsensusAppend i c d)) = replication_state d"
  by (simp add: HandleConsensusAppend_def Let_def split: option.splits)

lemma ApplyTask_repl [simp]:
  "replication_state (final (ApplyTask ndebug t a d)) = replication_state d"
  by (simp add: ApplyTask_def Let_def split: option.splits)

lemma dispatch_repl [simp]:
  "replication_state (final (ReplicationFinished_dispatch ndebug s t a d)) = replication_state d"
  by (simp add: ReplicationFinished_dispatch_def)

lemma poll_repl [simp]:
  "replication_state (final (ReplicationFinished_poll ndebug d)) = replication_state d"
  by (simp add: ReplicationFinished_poll_def split: option.splits)

lemma PrepareAndStartTask_failed:
  "replication_state d = REPLICATION_FAILED \<Longrightarrow>
   replication_state (final (PrepareAndStartTask d)) = REPLICATION_FAILED"
  by (cases "operation d")
    (simp_all add: PrepareAndStartTask_def PrepareAndStart_def Let_def)

lemma ReplicationFinished_failed:
  "replication_state d = REPLICATION_FAILED \<Longrightarrow>
   replication_state (final (ReplicationFinished ndebug s t a d)) = REPLICATION_FAILED"
  by (simp add: ReplicationFinished_def)

lemma step_failed:
  "replication_state d = REPLICATION_FAILED \<Longrightarrow>
   replication_state (final (step ndebug e d)) = REPLICATION_FAILED"
  by (cases e) (simp_all add: PrepareAndStartTask_failed ReplicationFinished_failed)

lemma run_failed:
  "replication_state d = REPLICATION_FAILED \<Longrightarrow>
   replication_state (final (run ndebug es d)) = REPLICATION_FAILED"
proof (induction es arbitrary: d)
  case Nil
  then show ?case by simp
next
  case (Cons e es)
  from step_failed [OF Cons.prems, of ndebug e] Cons.IH show ?case
    by (cases "step ndebug e d") auto
qed

text \<open>
  Claim C4, as stated, at a success status in a debug build: a follower driver is
  prepared, its replication fails, and it is in \<open>REPLICATION_FAILED\<close>; a call of
  \<open>ReplicationFinished\<close> with an OK status then does not return, because
  \<open>LOG_IF(DFATAL, status.ok())\<close> aborts the process.
\<close>

theorem ReplicationFailed_success_counterexample:
  "Init OK (Some (Some example_operation)) kUnknownTerm (new_OperationDriver True) =
     Inr (OK, Some None, example_follower) \<and>
   run False [PrepareAndStartTask_call,
              ReplicationFinished_call (Error Aborted ''leader changed'') 5 None]
       example_follower = Inr example_failed \<and>
   replication_state example_failed = REPLICATION_FAILED \<and>
   ReplicationFinished False OK 5 None example_failed =
     Inl (LOG_DFATAL ''Successfully replicated operation that was previously failed'',
          example_failed)"
proof -
  have "ReplicationFinished False OK 5 None example_failed =
     Inl (LOG_DFATAL ''Successfully replicated operation that was previously failed'',
          example_failed)"
    by (simp add: ReplicationFinished_def example_failed_def GetOpId_def OpId_valid_def)
  moreover have "replication_state example_failed = REPLICATION_FAILED"
    by (simp add: example_failed_def)
  ultimately show ?thesis
    using example_follower_Init example_failed_run [of False] by blast
qed

text \<open>
  Claim C4, amended. On a driver whose \<open>replication_state_\<close> is \<open>REPLICATION_FAILED\<close>,
  \<open>ReplicationFinished\<close> changes nothing and calls nothing: it returns the driver as it
  was when the status is not OK or the build is a release build, and with an OK status
  in a debug build the process aborts at the \<open>DFATAL\<close> log, the driver again as it was.
  Whatever calls follow, \<open>replication_state_\<close> remains \<open>REPLICATION_FAILED\<close>, so it
  never becomes \<open>REPLICATED\<close>.
\<close>

theorem ReplicationFailed_terminal:
  assumes "replication_state d = REPLICATION_FAILED"
  shows "(ndebug \<or> \<not> ok status \<longrightarrow> ReplicationFinished ndebug status leader_term applied d = Inr d) \<and>
         (\<not> ndebug \<and> ok status \<longrightarrow>
            (\<exists>m. ReplicationFinished ndebug status leader_term applied d = Inl (LOG_DFATAL m, d))) \<and>
         replication_state (final (run ndebug es d)) = REPLICATION_FAILED"
  using assms run_failed [OF assms, of ndebug es]
  by (auto simp: ReplicationFinished_def)

theorem ReplicationFailed_terminal_witness:
  "replication_state example_failed = REPLICATION_FAILED \<and>
   ReplicationFinished True OK 5 None example_failed = Inr example_failed \<and>
   ReplicationFinished False (Error Aborted ''leader changed'') 5 None example_failed =
     Inr example_failed \<and>
   replication_state
     (final (run True [ReplicationFinished_call OK 5 None, PrepareAndStartTask_call,
                       ReplicationFinished_call OK 6 None] example_failed)) =
     REPLICATION_FAILED"
proof -
  have h: "replication_state example_failed = REPLICATION_FAILED"
    by (simp add: example_failed_def)
  from ReplicationFailed_terminal [OF h, of True OK 5 None
      "[ReplicationFinished_call OK 5 None, PrepareAndStartTask_call,
        ReplicationFinished_call OK 6 None]"]
    ReplicationFailed_terminal [OF h, of False "Error Aborted ''leader changed''" 5 None "[]"]
    h
  show ?thesis by (simp del: run.simps)
qed

subsection \<open>A follower driver that the tracker rejects\<close>

text \<open>
  Claim C10. \<open>Init\<close> in follower mode (unknown term) with an operation, when the
  tracker's \<open>Add\<close> answers a non-OK status: \<open>Init\<close> returns that status, the caller's
  \<open>unique_ptr\<close> holds the operation again and the driver holds none, the only call made
  is the tracker's \<open>Add\<close> (so \<open>AddedToFollower\<close> is not called), and \<open>GetOpId\<close> on the
  driver gives the op-id of the operation.
\<close>

theorem Init_follower_rejected:
  assumes "\<not> ok add_result"
  shows "\<exists>d'. Init add_result (Some (Some opn)) kUnknownTerm d =
                 Inr (add_result, Some (Some opn), d') \<and>
              operation d' = None \<and>
              called d' = called d @ [Tracker_Add] \<and>
              GetOpId d' = state_op_id opn"
  using assms
  by (simp add: Init_def Init_replicating_def Let_def record_call_def GetOpId_def called_def)

theorem Init_follower_rejected_witness:
  "\<not> ok (Error ServiceUnavailable ''memory limit'') \<and>
   Init (Error ServiceUnavailable ''memory limit'') (Some (Some example_operation)) kUnknownTerm
        (new_OperationDriver True) =
     Inr (Error ServiceUnavailable ''memory limit'', Some (Some example_operation),
          \<lparr>operation = None, op_id_copy = \<lparr>opid_term = 5, opid_index = 42\<rparr>,
           replication_state = REPLICATING, prepare_state = NOT_PREPARED,
           consensus_present = True, propagated_safe_time = None,
           calls = [(Tracker_Add, REPLICATING, NOT_PREPARED)], waiting = None\<rparr>)"
  using Init_follower_rejected [of "Error ServiceUnavailable ''memory limit''"
      example_operation "new_OperationDriver True"]
  by (simp add: Init_def Init_replicating_def Let_def record_call_def new_OperationDriver_def
      example_operation_def)

section \<open>Properties of the peer\<close>

subsection \<open>The earliest needed log index\<close>

lemma min_with_pending_le: "min_with_pending xs m \<le> m"
proof (induction xs arbitrary: m)
  case Nil
  show ?case by (simp add: min_with_pending_def)
next
  case (Cons x xs)
  show ?case
  proof (cases "IsInitialized x")
    case True
    then have "min_with_pending (x # xs) m = min_with_pending xs (min m (index x))"
      by (simp add: min_with_pending_def)
    also have "\<dots> \<le> min m (index x)" by (rule Cons.IH)
    finally show ?thesis by simp
  next
    case False
    then have "min_with_pending (x # xs) m = min_with_pending xs m"
      by (simp add: min_with_pending_def)
    with Cons.IH [of m] show ?thesis by simp
  qed
qed

lemma min_with_pending_mem:
  "tx \<in> set xs \<Longrightarrow> IsInitialized tx \<Longrightarrow> min_with_pending xs m \<le> index tx"
proof (induction xs arbitrary: m)
  case Nil
  then show ?case by simp
next
  case (Cons x xs)
  show ?case
  proof (cases "tx = x")
    case True
    have "min_with_pending (x # xs) m = min_with_pending xs (min m (index x))"
      using Cons.prems True by (simp add: min_with_pending_def)
    also have "\<dots> \<le> min m (index x)" by (rule min_with_pending_le)
    finally show ?thesis using True by simp
  next
    case False
    with Cons.prems have "tx \<in> set xs" by simp
    from Cons.IH [OF this Cons.prems(2)] show ?thesis
      by (simp add: min_with_pending_def)
  qed
qed

lemma min_with_anchor_le: "min_with_anchor ndebug p m = Inr m' \<Longrightarrow> m' \<le> m"
  by (auto simp: min_with_anchor_def Let_def split: if_splits)

lemma min_with_coordinator_le: "min_with_coordinator t m \<le> m"
  by (simp add: min_with_coordinator_def split: option.splits)

lemma min_with_persistent_le: "min_with_persistent t m = Inr m' \<Longrightarrow> m' \<le> m"
  by (auto simp: min_with_persistent_def Let_def split: if_splits sum.splits)

lemma min_with_committed_le: "snd (min_with_committed c m) \<le> m"
  by (simp add: min_with_committed_def Let_def)

lemma GetEarliestNeededLogIndex_bound:
  assumes ret: "GetEarliestNeededLogIndex ndebug p = Inr (s, m)"
    and lg: "log p = Some lg" and nz: "GetLatestEntryOpId_index lg \<noteq> 0"
  shows "\<exists>m1. m \<le> min_with_pending (GetPendingOperations p) m1"
proof -
  from ret lg nz obtain m1 where
    m1: "min_with_anchor ndebug p (GetLatestEntryOpId_index lg) = Inr m1"
    by (auto simp: GetEarliestNeededLogIndex_def Let_def split: sum.splits)
  define m2 where "m2 = min_with_pending (GetPendingOperations p) m1"
  from ret lg nz m1 obtain t where t: "tablet p = Some t"
    by (auto simp: GetEarliestNeededLogIndex_def Let_def split: option.splits)
  define m3 where "m3 = min_with_coordinator t m2"
  have m32: "m3 \<le> m2" unfolding m3_def by (rule min_with_coordinator_le)
  have "m \<le> m3"
  proof (cases "min_with_persistent t m3")
    case (Inl e)
    with ret lg nz m1 t show ?thesis
      by (simp add: GetEarliestNeededLogIndex_def Let_def m2_def m3_def)
  next
    case (Inr m4)
    then have m43: "m4 \<le> m3" by (rule min_with_persistent_le)
    from ret lg nz m1 t Inr obtain c where c: "consensus p = Some c"
      by (auto simp: GetEarliestNeededLogIndex_def Let_def m2_def m3_def split: option.splits)
    with ret lg nz m1 t Inr have "min_with_committed c m4 = (s, m)"
      by (simp add: GetEarliestNeededLogIndex_def Let_def m2_def m3_def)
    with min_with_committed_le [of c m4] have "m \<le> m4" by simp
    with m43 show ?thesis by simp
  qed
  with m32 have "m \<le> m2" by simp
  then show ?thesis unfolding m2_def by blast
qed

lemma GetEarliestNeededLogIndex_returns:
  assumes "log p \<noteq> None" "tablet p \<noteq> None" "consensus p \<noteq> None"
    and "ndebug \<or> ok (fst (GetEarliestRegisteredLogIndex p)) \<or>
         IsNotFound (fst (GetEarliestRegisteredLogIndex p))"
  shows "\<exists>s m. GetEarliestNeededLogIndex ndebug p = Inr (s, m)"
proof -
  from assms(1-3) obtain lg t c where
    p: "log p = Some lg" "tablet p = Some t" "consensus p = Some c"
    by auto
  from assms(4) have "\<exists>m1. min_with_anchor ndebug p (GetLatestEntryOpId_index lg) = Inr m1"
    by (auto simp: min_with_anchor_def Let_def)
  then obtain m1 where
    m1: "min_with_anchor ndebug p (GetLatestEntryOpId_index lg) = Inr m1" ..
  obtain s m where
    "min_with_committed c
       (case min_with_persistent t
               (min_with_coordinator t (min_with_pending (GetPendingOperations p) m1)) of
          Inl e \<Rightarrow> 0 | Inr m4 \<Rightarrow> m4) = (s, m)"
    by (cases "min_with_committed c
       (case min_with_persistent t
               (min_with_coordinator t (min_with_pending (GetPendingOperations p) m1)) of
          Inl e \<Rightarrow> 0 | Inr m4 \<Rightarrow> m4)")
  with p m1 show ?thesis
    by (auto simp: GetEarliestNeededLogIndex_def Let_def split: sum.splits)
qed

text \<open>
  Claim C5. When the latest entry of the log has index 0, \<open>GetEarliestNeededLogIndex\<close>
  returns OK with 0 in \<open>*min_index\<close>, whatever the anchor registry, the tracker, the tablet
  and consensus would answer. Otherwise, whenever it returns, with whatever status, the
  value in \<open>*min_index\<close> is at most the index of every pending driver whose op-id is
  initialized. And it does return when the log, the tablet and consensus are there and
  the anchor registry answers OK or NotFound (or the build is a release build).
\<close>

theorem earliest_needed_log_index:
  "(log p = Some lg \<and> GetLatestEntryOpId_index lg = 0 \<longrightarrow>
      GetEarliestNeededLogIndex ndebug p = Inr (OK, 0)) \<and>
   (log p = Some lg \<and> GetLatestEntryOpId_index lg \<noteq> 0 \<and>
    GetEarliestNeededLogIndex ndebug p = Inr (s, m) \<longrightarrow>
      (\<forall>tx \<in> set (GetPendingOperations p). IsInitialized tx \<longrightarrow> m \<le> index tx)) \<and>
   (log p \<noteq> None \<and> tablet p \<noteq> None \<and> consensus p \<noteq> None \<and>
    (ndebug \<or> ok (fst (GetEarliestRegisteredLogIndex p)) \<or>
     IsNotFound (fst (GetEarliestRegisteredLogIndex p))) \<longrightarrow>
      (\<exists>s' m'. GetEarliestNeededLogIndex ndebug p = Inr (s', m')))"
proof (intro conjI impI ballI)
  assume "log p \<noteq> None \<and> tablet p \<noteq> None \<and> consensus p \<noteq> None \<and>
    (ndebug \<or> ok (fst (GetEarliestRegisteredLogIndex p)) \<or>
     IsNotFound (fst (GetEarliestRegisteredLogIndex p)))"
  then show "\<exists>s' m'. GetEarliestNeededLogIndex ndebug p = Inr (s', m')"
    using GetEarliestNeededLogIndex_returns by blast
next
  assume "log p = Some lg \<and> GetLatestEntryOpId_index lg = 0"
  then show "GetEarliestNeededLogIndex ndebug p = Inr (OK, 0)"
    by (simp add: GetEarliestNeededLogIndex_def)
next
  fix tx
  assume a: "log p = Some lg \<and> GetLatestEntryOpId_index lg \<noteq> 0 \<and>
    GetEarliestNeededLogIndex ndebug p = Inr (s, m)"
    and tx: "tx \<in> set (GetPendingOperations p)" "IsInitialized tx"
  from a obtain m1 where "m \<le> min_with_pending (GetPendingOperations p) m1"
    using GetEarliestNeededLogIndex_bound by blast
  also have "\<dots> \<le> index tx" using tx by (rule min_with_pending_mem)
  finally show "m \<le> index tx" .
qed

theorem earliest_needed_log_index_witness:
  "GetEarliestNeededLogIndex False (example_peer\<lparr>log := Some \<lparr>GetLatestEntryOpId_index = 0\<rparr>\<rparr>) =
     Inr (OK, 0) \<and>
   GetEarliestNeededLogIndex False example_peer = Inr (OK, 42) \<and>
   42 \<le> index \<lparr>pb_term = Some 5, pb_index = Some 42\<rparr>"
proof -
  have run0: "GetEarliestNeededLogIndex False example_peer = Inr (OK, 42)"
    by (simp add: GetEarliestNeededLogIndex_def min_with_anchor_def min_with_pending_def
        min_with_coordinator_def min_with_persistent_def min_with_committed_def
        example_peer_def example_tablet_def IsInitialized_def index_def OpId_set_def
        OpId_less_def)
  have mem: "\<lparr>pb_term = Some 5, pb_index = Some 42\<rparr> \<in> set (GetPendingOperations example_peer)"
    by (simp add: example_peer_def)
  have ini: "IsInitialized \<lparr>pb_term = Some 5, pb_index = Some 42\<rparr>"
    by (simp add: IsInitialized_def)
  from earliest_needed_log_index
         [of "example_peer\<lparr>log := Some \<lparr>GetLatestEntryOpId_index = 0\<rparr>\<rparr>"
             "\<lparr>GetLatestEntryOpId_index = 0\<rparr>" False OK 0]
  have a: "GetEarliestNeededLogIndex False
             (example_peer\<lparr>log := Some \<lparr>GetLatestEntryOpId_index = 0\<rparr>\<rparr>) = Inr (OK, 0)"
    by simp
  from earliest_needed_log_index
         [of example_peer "\<lparr>GetLatestEntryOpId_index = 100\<rparr>" False OK 42] run0 mem ini
  have b: "42 \<le> index \<lparr>pb_term = Some 5, pb_index = Some 42\<rparr>"
    by (auto simp: example_peer_def)
  from a run0 b show ?thesis by simp
qed

subsection \<open>Operation types\<close>

text \<open>
  Claim C6, as stated, at \<open>kSnapshot\<close>: it is mapped to \<open>SNAPSHOT_OP\<close>, but
  \<open>CreateOperation\<close> on a message of that type is fatal and creates no operation.
\<close>

theorem snapshot_counterexample:
  "MapOperationTypeToPB kSnapshot = Inr SNAPSHOT_OP \<and>
   CreateOperation True (example_msg SNAPSHOT_OP) example_peer =
     Inl (LOG_FATAL ''FATAL_INVALID_ENUM_VALUE(consensus::OperationType)'')"
  by (simp add: CreateOperation_def example_msg_def)

text \<open>
  Claim C6, amended. \<open>MapOperationTypeToPB\<close> is injective on \<open>kWrite\<close>,
  \<open>kAlterSchema\<close>, \<open>kUpdateTransaction\<close>, \<open>kTruncate\<close> and \<open>kSnapshot\<close>. For the first
  four, \<open>CreateOperation\<close> on a message of the mapped op-type (that carries its request,
  or in a release build, and with the log in place) creates an operation of the
  original type. On \<open>SNAPSHOT_OP\<close> \<open>CreateOperation\<close> is fatal, and
  \<open>MapOperationTypeToPB(kEmpty)\<close> is fatal.
\<close>

theorem op_type_mapping:
  "inj_on MapOperationTypeToPB {kWrite, kAlterSchema, kUpdateTransaction, kTruncate, kSnapshot} \<and>
   (t \<in> {kWrite, kAlterSchema, kUpdateTransaction, kTruncate} \<and>
    MapOperationTypeToPB t = Inr (op_type replicate_msg) \<and>
    (ndebug \<or> carries_request replicate_msg) \<and> log p \<noteq> None \<longrightarrow>
      (\<exists>opn. CreateOperation ndebug replicate_msg p = Inr opn \<and> ReplicaOperation_type opn = t)) \<and>
   (op_type replicate_msg = SNAPSHOT_OP \<longrightarrow>
      CreateOperation ndebug replicate_msg p =
        Inl (LOG_FATAL ''FATAL_INVALID_ENUM_VALUE(consensus::OperationType)'')) \<and>
   MapOperationTypeToPB kEmpty =
     Inl (LOG_FATAL ''OperationType::kEmpty cannot be converted to consensus::OperationType'')"
proof (intro conjI impI)
  show "inj_on MapOperationTypeToPB {kWrite, kAlterSchema, kUpdateTransaction, kTruncate, kSnapshot}"
    by (simp add: inj_on_def)
next
  assume a: "t \<in> {kWrite, kAlterSchema, kUpdateTransaction, kTruncate} \<and>
    MapOperationTypeToPB t = Inr (op_type replicate_msg) \<and>
    (ndebug \<or> carries_request replicate_msg) \<and> log p \<noteq> None"
  then consider "t = kWrite" | "t = kAlterSchema" | "t = kUpdateTransaction" | "t = kTruncate"
    by auto
  then show "\<exists>opn. CreateOperation ndebug replicate_msg p = Inr opn \<and> ReplicaOperation_type opn = t"
  proof cases
    case 1
    with a have "op_type replicate_msg = WRITE_OP" by simp
    with a 1 show ?thesis by (auto simp: CreateOperation_def carries_request_def)
  next
    case 2
    with a have "op_type replicate_msg = ALTER_SCHEMA_OP" by simp
    with a 2 show ?thesis by (auto simp: CreateOperation_def carries_request_def)
  next
    case 3
    with a have "op_type replicate_msg = UPDATE_TRANSACTION_OP" by simp
    with a 3 show ?thesis by (auto simp: CreateOperation_def carries_request_def)
  next
    case 4
    with a have "op_type replicate_msg = TRUNCATE_OP" by simp
    with a 4 show ?thesis by (auto simp: CreateOperation_def carries_request_def)
  qed
next
  assume "op_type replicate_msg = SNAPSHOT_OP"
  then show "CreateOperation ndebug replicate_msg p =
        Inl (LOG_FATAL ''FATAL_INVALID_ENUM_VALUE(consensus::OperationType)'')"
    by (simp add: CreateOperation_def)
next
  show "MapOperationTypeToPB kEmpty =
     Inl (LOG_FATAL ''OperationType::kEmpty cannot be converted to consensus::OperationType'')"
    by simp
qed

theorem op_type_mapping_witness:
  "MapOperationTypeToPB kTruncate = Inr (op_type (example_msg TRUNCATE_OP)) \<and>
   carries_request (example_msg TRUNCATE_OP) \<and> log example_peer \<noteq> None \<and>
   CreateOperation False (example_msg TRUNCATE_OP) example_peer = Inr (TruncateOperation REPLICA) \<and>
   ReplicaOperation_type (TruncateOperation REPLICA) = kTruncate"
  using op_type_mapping [of kTruncate "example_msg TRUNCATE_OP" False example_peer]
  by (simp add: example_msg_def carries_request_def example_peer_def CreateOperation_def)

subsection \<open>SetFailed\<close>

lemma SetFailed_loop_result:
  "SetFailed_loop n p =
     (if state p \<noteq> FAILED \<and> state p \<noteq> QUIESCING \<and> state p \<noteq> SHUTDOWN
      then p\<lparr>state := FAILED\<rparr> else p)"
  by (induction n) simp_all

text \<open>
  Claim C7, as stated, at \<open>QUIESCING\<close>: \<open>SetFailed\<close> leaves the state \<open>QUIESCING\<close>.
\<close>

theorem SetFailed_quiescing_counterexample:
  "state (final_peer (SetFailed True 0 (Error Corruption ''bad block'')
            (example_peer\<lparr>state := QUIESCING\<rparr>))) = QUIESCING"
  by (simp add: SetFailed_def final_peer_def)

text \<open>
  Claim C7, amended. On a peer with no error recorded yet (or in a release build, where
  the \<open>DCHECK\<close> is absent), \<open>SetFailed(error)\<close> records the error and, from
  \<open>NOT_STARTED\<close>, \<open>BOOTSTRAPPING\<close> or \<open>RUNNING\<close>, moves the state to \<open>FAILED\<close>, however
  often the weak compare-exchange fails spuriously; from \<open>QUIESCING\<close> it records the
  error and leaves the state as it is.
\<close>

theorem SetFailed_transition:
  assumes "ndebug \<or> error p = None"
  shows "(state p \<in> {NOT_STARTED, BOOTSTRAPPING, RUNNING} \<longrightarrow>
            SetFailed ndebug spurious err p = Inr (p\<lparr>error := Some err, state := FAILED\<rparr>)) \<and>
         (state p = QUIESCING \<longrightarrow>
            SetFailed ndebug spurious err p = Inr (p\<lparr>error := Some err\<rparr>))"
  using assms by (auto simp: SetFailed_def SetFailed_loop_result)

theorem SetFailed_transition_witness:
  "error example_peer = None \<and> state example_peer = RUNNING \<and>
   SetFailed False 2 (Error Corruption ''bad block'') example_peer =
     Inr (example_peer\<lparr>error := Some (Error Corruption ''bad block''), state := FAILED\<rparr>) \<and>
   SetFailed False 2 (Error Corruption ''bad block'') (example_peer\<lparr>state := QUIESCING\<rparr>) =
     Inr (example_peer\<lparr>state := QUIESCING, error := Some (Error Corruption ''bad block'')\<rparr>)"
  using SetFailed_transition [of False example_peer 2 "Error Corruption ''bad block''"]
    SetFailed_transition [of False "example_peer\<lparr>state := QUIESCING\<rparr>" 2
      "Error Corruption ''bad block''"]
  by (simp add: example_peer_def)

subsection \<open>Failures of the leader submission paths\<close>

lemma Init_rejected:
  assumes "\<not> ok add_result"
  shows "\<exists>d'. Init add_result (Some (Some opn)) trm d = Inr (add_result, Some (Some opn), d')"
  using assms by (simp add: Init_def Init_replicating_def Let_def record_call_def)

lemma NewLeaderOperationDriver_rejected:
  assumes "tablet p \<noteq> None" "\<not> ok add_result"
  shows "NewLeaderOperationDriver add_result current_term (Some (Some opn)) p =
           Inr (Inl add_result, Some (Some opn))"
proof -
  from assms(1) obtain t where t: "tablet p = Some t" by auto
  obtain d' where
    "Init add_result (Some (Some opn)) (Init_term current_term LEADER)
       (new_OperationDriver (consensus p \<noteq> None)) = Inr (add_result, Some (Some opn), d')"
    using Init_rejected [OF assms(2)] by blast
  with t assms(2) show ?thesis
    by (simp add: NewLeaderOperationDriver_def NewOperationDriver_def CreateOperationDriver_def)
qed

text \<open>
  Claim C8, as stated, at \<open>Submit\<close> on a peer that is \<open>NOT_STARTED\<close>: the completion
  callback is called with the \<open>IllegalState\<close> status of \<open>CheckRunning\<close>, which is not an
  \<open>Aborted\<close> status.
\<close>

theorem Submit_status_counterexample:
  "Submit OK 5 example_operation (example_peer\<lparr>state := NOT_STARTED\<rparr>) =
     Inr (example_peer\<lparr>state := NOT_STARTED,
            peer_calls := [Operation_Finish ABORTED,
              CompleteWithStatus
                (Error IllegalState ''The tablet is not in a running state: NOT_STARTED'')]\<rparr>) \<and>
   \<not> IsAborted (Error IllegalState ''The tablet is not in a running state: NOT_STARTED'')"
  by (simp add: Submit_def CheckRunning_def local_operation_def peer_call_def example_peer_def)

text \<open>
  Claim C8, amended. On a peer that is not \<open>RUNNING\<close>, \<open>Submit\<close> finishes the operation
  as \<open>ABORTED\<close> and calls the completion callback once, and \<open>WriteAsync\<close> calls the
  completion callback once, in both cases with the \<open>IllegalState\<close> status of
  \<open>CheckRunning\<close>, and neither calls \<open>ExecuteAsync\<close>. When the tracker rejects the new
  driver (and the tablet is there), \<open>StartExecution\<close> calls the completion callback once
  with the status of the tracker, and so does \<open>Submit\<close> on a running peer after finishing
  the operation as \<open>ABORTED\<close>; neither calls \<open>ExecuteAsync\<close>.
\<close>

theorem submission_failure:
  "(state p \<noteq> RUNNING \<longrightarrow>
      CheckRunning p =
        Error IllegalState (''The tablet is not in a running state: '' @ TabletStatePB_Name (state p)) \<and>
      Submit add_result current_term opn p =
        Inr (p\<lparr>peer_calls := peer_calls p @
                [Operation_Finish ABORTED, CompleteWithStatus (CheckRunning p)]\<rparr>) \<and>
      WriteAsync p =
        Inr (p\<lparr>peer_calls := peer_calls p @ [CompleteWithStatus (CheckRunning p)]\<rparr>)) \<and>
   (tablet p \<noteq> None \<and> \<not> ok add_result \<longrightarrow>
      StartExecution add_result current_term opn p =
        Inr (p\<lparr>peer_calls := peer_calls p @ [CompleteWithStatus add_result]\<rparr>) \<and>
      (state p = RUNNING \<longrightarrow>
         Submit add_result current_term opn p =
           Inr (p\<lparr>peer_calls := peer_calls p @
                   [Operation_Finish ABORTED, CompleteWithStatus add_result]\<rparr>)))"
proof (intro conjI impI)
  assume "state p \<noteq> RUNNING"
  then show "CheckRunning p =
        Error IllegalState (''The tablet is not in a running state: '' @ TabletStatePB_Name (state p))"
    by (simp add: CheckRunning_def)
next
  assume "state p \<noteq> RUNNING"
  then show "Submit add_result current_term opn p =
        Inr (p\<lparr>peer_calls := peer_calls p @
                [Operation_Finish ABORTED, CompleteWithStatus (CheckRunning p)]\<rparr>)"
    by (simp add: Submit_def CheckRunning_def local_operation_def peer_call_def)
next
  assume "state p \<noteq> RUNNING"
  then show "WriteAsync p =
        Inr (p\<lparr>peer_calls := peer_calls p @ [CompleteWithStatus (CheckRunning p)]\<rparr>)"
    by (simp add: WriteAsync_def CheckRunning_def peer_call_def)
next
  assume "tablet p \<noteq> None \<and> \<not> ok add_result"
  then show "StartExecution add_result current_term opn p =
        Inr (p\<lparr>peer_calls := peer_calls p @ [CompleteWithStatus add_result]\<rparr>)"
    by (simp add: StartExecution_def NewLeaderOperationDriver_rejected local_operation_def
        peer_call_def)
next
  assume "tablet p \<noteq> None \<and> \<not> ok add_result" and "state p = RUNNING"
  then show "Submit add_result current_term opn p =
           Inr (p\<lparr>peer_calls := peer_calls p @
                   [Operation_Finish ABORTED, CompleteWithStatus add_result]\<rparr>)"
    by (simp add: Submit_def CheckRunning_def NewLeaderOperationDriver_rejected
        local_operation_def peer_call_def)
qed

theorem submission_failure_witness:
  "state (example_peer\<lparr>state := BOOTSTRAPPING\<rparr>) \<noteq> RUNNING \<and>
   Submit OK 5 example_operation (example_peer\<lparr>state := BOOTSTRAPPING\<rparr>) =
     Inr (example_peer\<lparr>state := BOOTSTRAPPING,
            peer_calls := [Operation_Finish ABORTED,
              CompleteWithStatus
                (Error IllegalState ''The tablet is not in a running state: BOOTSTRAPPING'')]\<rparr>) \<and>
   tablet example_peer \<noteq> None \<and> \<not> ok (Error ServiceUnavailable ''memory limit'') \<and>
   state example_peer = RUNNING \<and>
   Submit (Error ServiceUnavailable ''memory limit'') 5 example_operation example_peer =
     Inr (example_peer\<lparr>peer_calls := [Operation_Finish ABORTED,
            CompleteWithStatus (Error ServiceUnavailable ''memory limit'')]\<rparr>)"
  using submission_failure [of "example_peer\<lparr>state := BOOTSTRAPPING\<rparr>" OK 5 example_operation]
    submission_failure [of example_peer "Error ServiceUnavailable ''memory limit''" 5
      example_operation]
  by (simp add: example_peer_def CheckRunning_def)

subsection \<open>Shutdown\<close>

lemma peer_call_fields [simp]:
  "state (peer_call c p) = state p"
  "error (peer_call c p) = error p"
  "tablet (peer_call c p) = tablet p"
  "log (peer_call c p) = log p"
  "consensus (peer_call c p) = consensus p"
  "prepare_thread (peer_call c p) = prepare_thread p"
  "has_consensus (peer_call c p) = has_consensus p"
  "GetPendingOperations (peer_call c p) = GetPendingOperations p"
  "maintenance_ops (peer_call c p) = maintenance_ops p"
  "peer_calls (peer_call c p) = peer_calls p @ [c]"
  by (simp_all add: peer_call_def)

lemma fold_Unregister:
  "fold (\<lambda>op q. peer_call (MaintenanceOp_Unregister op) q) ops p =
     p\<lparr>peer_calls := peer_calls p @ map MaintenanceOp_Unregister ops\<rparr>"
  by (induction ops arbitrary: p) (simp_all add: peer_call_def)


lemma StartShutdown_later:
  "state p = QUIESCING \<or> state p = SHUTDOWN \<Longrightarrow>
   StartShutdown p =
     (False, if tablet p \<noteq> None then peer_call Tablet_SetShutdownRequestedFlag p else p)"
  by (auto simp: StartShutdown_def Let_def)



lemma WaitUntilShutdown_result:
  "WaitUntilShutdown p = (if state p = SHUTDOWN then Some p else None)"
proof (cases "state p = SHUTDOWN")
  case True
  then show ?thesis by (subst WaitUntilShutdown.simps) simp
next
  case False
  have "state p = SHUTDOWN" if ret: "WaitUntilShutdown p = Some y" for y
    by (rule WaitUntilShutdown.raw_induct
          [where P = "\<lambda>q y. state q = SHUTDOWN", OF _ ret]) (simp split: if_splits)
  with False have "WaitUntilShutdown p = None"
    by (cases "WaitUntilShutdown p") auto
  with False show ?thesis by simp
qed




lemma Shutdown_blocked:
  "state p = QUIESCING \<Longrightarrow> Shutdown ndebug p = None"
  by (simp add: Shutdown_def StartShutdown_later WaitUntilShutdown_result)

lemma new_calls_same [simp]: "new_calls p p = []"
  by (simp add: new_calls_def)



lemma first_caller_state:
  assumes "caller_inv p0 p (callers s t)" "first_caller s t"
  shows "state p = QUIESCING \<or> state p = SHUTDOWN"
  using assms by (auto simp: caller_inv_def first_caller_def)




lemma sys_inv_history [simp]:
  "sys_inv p0 (s\<lparr>tracker_wait_returned := b\<rparr>) = sys_inv p0 s"
  "sys_inv p0 (s\<lparr>registered_after_wait := b\<rparr>) = sys_inv p0 s"
  by (simp_all add: sys_inv_def first_caller_def)









































end
